theory Spec2Isabelle
  imports Main "HOL-Library.Word"
begin

unbundle bit_operations_syntax

section \<open>Data model of tcp\_caohejing.c\<close>

text \<open>
  The embedding follows \<^verbatim>\<open>src/tcp_caohejing.c\<close> on a 64-bit (LP64) kernel:
  \<^verbatim>\<open>u32\<close>, \<^verbatim>\<open>s32\<close> and \<^verbatim>\<open>int\<close> are 32-bit words, \<^verbatim>\<open>u64\<close>, \<^verbatim>\<open>long\<close> and
  \<^verbatim>\<open>unsigned long\<close> are 64-bit words. A word carries no sign, so the synonyms \<open>s32\<close>
  and \<open>s64\<close> only record how C reads the value: where C compares or converts a signed
  value the model uses the signed operations (\<open><s\<close>, \<open>scast\<close>), elsewhere the unsigned
  ones (\<open><\<close>, \<open>ucast\<close>). All arithmetic wraps as in C.
\<close>

type_synonym u8 = "8 word"
type_synonym u32 = "32 word"
type_synonym u64 = "64 word"
type_synonym s32 = "32 word"
type_synonym s64 = "64 word"

text \<open>A machine fault: the only one this file can raise is an integer division by zero.\<close>

datatype fault = Divide_error

text \<open>\<^verbatim>\<open>#define CAL_SCALE 8\<close>, \<^verbatim>\<open>CAL_UNIT (1 << CAL_SCALE)\<close>, \<^verbatim>\<open>BW_SCALE 24\<close>,
  \<^verbatim>\<open>BW_UNIT (1 << BW_SCALE)\<close>, \<^verbatim>\<open>UP 0\<close>, \<^verbatim>\<open>DOWN 1\<close>. The units are C \<^verbatim>\<open>int\<close>
  constants converted to the type of the expression they stand in, hence polymorphic.\<close>

definition CAL_SCALE :: nat where
  "CAL_SCALE = 8"

definition CAL_UNIT :: "'a::len word" where
  "CAL_UNIT = push_bit CAL_SCALE 1"

definition BW_SCALE :: nat where
  "BW_SCALE = 24"

definition BW_UNIT :: "'a::len word" where
  "BW_UNIT = push_bit BW_SCALE 1"

definition UP :: "3 word" where
  "UP = 0"

definition DOWN :: "3 word" where
  "DOWN = 1"

text \<open>Kernel constants used by the file and declared outside it:
  \<^verbatim>\<open>enum tcp_ca_state\<close> (\<^verbatim>\<open>TCP_CA_Open = 0\<close>, \<^verbatim>\<open>TCP_CA_Recovery = 3\<close>,
  \<^verbatim>\<open>TCP_CA_Loss = 4\<close>) and \<^verbatim>\<open>USEC_PER_SEC = 1000000L\<close>.\<close>

definition TCP_CA_Open :: u8 where
  "TCP_CA_Open = 0"

definition TCP_CA_Recovery :: u8 where
  "TCP_CA_Recovery = 3"

definition TCP_CA_Loss :: u8 where
  "TCP_CA_Loss = 4"

definition USEC_PER_SEC :: u64 where
  "USEC_PER_SEC = 1000000"

text \<open>\<^verbatim>\<open>struct minmax_sample { u32 t; u32 v; }\<close> and
  \<^verbatim>\<open>struct minmax { struct minmax_sample s[3]; }\<close> of \<^verbatim>\<open>linux/win_minmax.h\<close>.\<close>

record minmax_sample =
  smp_t :: u32
  smp_v :: u32

record minmax =
  s0 :: minmax_sample
  s1 :: minmax_sample
  s2 :: minmax_sample

text \<open>\<^verbatim>\<open>struct caohejing\<close>. The bit-fields \<^verbatim>\<open>prev_ca_state:3\<close> and \<^verbatim>\<open>state:3\<close> are
  3-bit words, \<^verbatim>\<open>packet_conservation:1\<close> is a boolean.\<close>

record caohejing =
  rtt :: u32
  gain :: u32
  min_rtt_us :: u32
  rtt_cnt :: u32
  next_rtt_delivered :: u32
  prior_cwnd :: u32
  bw :: minmax
  curr_bw :: u64
  last_bw :: u64
  cycle_mstamp :: u64
  prev_ca_state :: "3 word"
  state :: "3 word"
  packet_conservation :: bool

text \<open>The fields of \<^verbatim>\<open>struct rate_sample\<close> that the file reads: \<^verbatim>\<open>u32 prior_delivered\<close>,
  \<^verbatim>\<open>s32 delivered\<close>, \<^verbatim>\<open>long interval_us\<close>, \<^verbatim>\<open>long rtt_us\<close>, \<^verbatim>\<open>int losses\<close>,
  \<^verbatim>\<open>u32 acked_sacked\<close>.\<close>

record rate_sample =
  prior_delivered :: u32
  delivered :: s32
  interval_us :: s64
  rtt_us :: s64
  losses :: s32
  acked_sacked :: u32

text \<open>The host side of \<^verbatim>\<open>struct sock\<close> as far as the file touches it:
  \<^verbatim>\<open>tp->snd_cwnd\<close>, \<^verbatim>\<open>tp->snd_cwnd_clamp\<close>, \<^verbatim>\<open>tp->snd_ssthresh\<close>, \<^verbatim>\<open>tp->delivered\<close>
  (here \<open>tp_delivered\<close>, the name \<open>delivered\<close> being the sample's),
  \<^verbatim>\<open>tp->delivered_mstamp\<close>, \<^verbatim>\<open>tp->mss_cache\<close>, \<^verbatim>\<open>sk->sk_pacing_rate\<close>,
  \<^verbatim>\<open>sk->sk_max_pacing_rate\<close>, \<^verbatim>\<open>sk->sk_pacing_shift\<close>, \<^verbatim>\<open>icsk->icsk_ca_state\<close>.
  \<open>packets_in_flight\<close> is the value of the kernel helper \<^verbatim>\<open>tcp_packets_in_flight(tp)\<close>,
  and \<open>gso_max_size\<close>, \<open>max_tcp_header\<close> are the configuration-dependent kernel
  constants \<^verbatim>\<open>GSO_MAX_SIZE\<close> and \<^verbatim>\<open>MAX_TCP_HEADER\<close>; the host supplies all three.\<close>

record sock =
  snd_cwnd :: u32
  snd_cwnd_clamp :: u32
  snd_ssthresh :: u32
  tp_delivered :: u32
  delivered_mstamp :: u64
  mss_cache :: u32
  packets_in_flight :: u32
  sk_pacing_rate :: u64
  sk_max_pacing_rate :: u64
  sk_pacing_shift :: u8
  icsk_ca_state :: u8
  gso_max_size :: u64
  max_tcp_header :: u64

text \<open>The variables of the module: the parameter \<^verbatim>\<open>static int conservation\<close> and the
  function-local \<^verbatim>\<open>static int start\<close> of \<^verbatim>\<open>tcp_caohejing_cong_control\<close>, one instance
  for all sockets. The parameter \<^verbatim>\<open>debug\<close> only selects a \<^verbatim>\<open>printk\<close> and is left out.\<close>

record module =
  conservation :: s32
  start :: s32

section \<open>Kernel helpers\<close>

text \<open>Modelled from the spec: the windowed-max filter of section 4.1 lives in the kernel's
  \<^verbatim>\<open>linux/win_minmax.h\<close> and \<^verbatim>\<open>lib/win_minmax.c\<close>, not in this repository; the four
  definitions below follow that kernel code (\<open>reset\<close> keeps a single sample, \<open>update\<close>
  forgets everything on a new maximum or when the window has passed, and otherwise
  keeps the best, second and third choice).\<close>

definition minmax_get :: "minmax \<Rightarrow> u32" where
  "minmax_get m = smp_v (s0 m)"

definition minmax_reset :: "minmax \<Rightarrow> u32 \<Rightarrow> u32 \<Rightarrow> minmax" where
  "minmax_reset m t meas =
     (let val = \<lparr>smp_t = t, smp_v = meas\<rparr> in m\<lparr>s2 := val, s1 := val, s0 := val\<rparr>)"

definition minmax_subwin_update :: "minmax \<Rightarrow> u32 \<Rightarrow> minmax_sample \<Rightarrow> minmax" where
  "minmax_subwin_update m win val =
     (let dt = smp_t val - smp_t (s0 m) in
      if dt > win then
        (let m1 = m\<lparr>s0 := s1 m, s1 := s2 m, s2 := val\<rparr> in
         if smp_t val - smp_t (s0 m1) > win
         then m1\<lparr>s0 := s1 m1, s1 := s2 m1, s2 := val\<rparr>
         else m1)
      else if smp_t (s1 m) = smp_t (s0 m) \<and> dt > win div 4 then m\<lparr>s2 := val, s1 := val\<rparr>
      else if smp_t (s2 m) = smp_t (s1 m) \<and> dt > win div 2 then m\<lparr>s2 := val\<rparr>
      else m)"

definition minmax_running_max :: "minmax \<Rightarrow> u32 \<Rightarrow> u32 \<Rightarrow> u32 \<Rightarrow> minmax" where
  "minmax_running_max m win t meas =
     (let val = \<lparr>smp_t = t, smp_v = meas\<rparr> in
      if smp_v val \<ge> smp_v (s0 m) \<or> smp_t val - smp_t (s2 m) > win
      then minmax_reset m t meas
      else
        (let m1 = (if smp_v val \<ge> smp_v (s1 m) then m\<lparr>s2 := val, s1 := val\<rparr>
                   else if smp_v val \<ge> smp_v (s2 m) then m\<lparr>s2 := val\<rparr>
                   else m)
         in minmax_subwin_update m1 win val))"

text \<open>\<^verbatim>\<open>before(seq1, seq2)\<close> of \<^verbatim>\<open>net/tcp.h\<close>: \<^verbatim>\<open>(__s32)(seq1 - seq2) < 0\<close>.\<close>

definition before :: "u32 \<Rightarrow> u32 \<Rightarrow> bool" where
  "before seq1 seq2 \<longleftrightarrow> seq1 - seq2 <s 0"

text \<open>\<^verbatim>\<open>tcp_stamp_us_delta(t1, t0)\<close> of \<^verbatim>\<open>net/tcp.h\<close>: \<^verbatim>\<open>max_t(s64, t1 - t0, 0)\<close>,
  returned as \<^verbatim>\<open>u32\<close>.\<close>

definition tcp_stamp_us_delta :: "u64 \<Rightarrow> u64 \<Rightarrow> u32" where
  "tcp_stamp_us_delta t1 t0 = (let d = t1 - t0 in if 0 <s d then ucast d else 0)"

text \<open>\<^verbatim>\<open>do_div(n, base)\<close> of \<^verbatim>\<open>asm-generic/div64.h\<close>: the divisor is converted to
  \<^verbatim>\<open>uint32_t\<close> and the 64-bit dividend is divided by it, unsigned; nothing checks
  the divisor, so a zero one is a divide error.\<close>

definition do_div :: "u64 \<Rightarrow> s64 \<Rightarrow> fault + u64" where
  "do_div n base =
     (let base32 = (ucast base :: u32) in
      if base32 = 0 then Inl Divide_error else Inr (n div ucast base32))"

section \<open>The callbacks\<close>

text \<open>\<^verbatim>\<open>tcp_caohejing_init\<close> (lines 41-58).\<close>

definition tcp_caohejing_init :: "caohejing \<Rightarrow> caohejing" where
  "tcp_caohejing_init w =
     (let w = w\<lparr>gain := CAL_UNIT * 5 div 4,
                state := UP,
                min_rtt_us := 0x7fffffff,
                prev_ca_state := ucast TCP_CA_Open,
                packet_conservation := False,
                rtt_cnt := 0,
                curr_bw := 0,
                last_bw := 0,
                prior_cwnd := 0\<rparr>;
          w = w\<lparr>bw := minmax_reset (bw w) (rtt_cnt w) 0\<rparr>
      in w\<lparr>next_rtt_delivered := 0, cycle_mstamp := 0\<rparr>)"

text \<open>\<^verbatim>\<open>tcp_caohejing_state\<close> (lines 60-67).\<close>

definition tcp_caohejing_state :: "sock \<Rightarrow> u8 \<Rightarrow> sock" where
  "tcp_caohejing_state sk new_state =
     (if new_state = TCP_CA_Loss then sk\<lparr>snd_cwnd := packets_in_flight sk + 1\<rparr> else sk)"

text \<open>\<^verbatim>\<open>tcp_caohejing_undo_cwnd\<close> (lines 69-74).\<close>

definition tcp_caohejing_undo_cwnd :: "caohejing \<Rightarrow> u32" where
  "tcp_caohejing_undo_cwnd w = max 2 (prior_cwnd w)"

text \<open>\<^verbatim>\<open>tcp_caohejing_ssthresh\<close> (lines 76-83): the new private state and the value
  returned.\<close>

definition tcp_caohejing_ssthresh :: "sock \<Rightarrow> caohejing \<Rightarrow> caohejing \<times> u32" where
  "tcp_caohejing_ssthresh sk w = (w\<lparr>prior_cwnd := snd_cwnd sk\<rparr>, snd_ssthresh sk)"

text \<open>\<^verbatim>\<open>is_next_cycle_phase\<close> (lines 85-98): the new private state and the result.\<close>

definition is_next_cycle_phase :: "sock \<Rightarrow> caohejing \<Rightarrow> caohejing \<times> bool" where
  "is_next_cycle_phase sk w =
     (let is_full_length =
            (tcp_stamp_us_delta (delivered_mstamp sk) (cycle_mstamp w) > min_rtt_us w)
      in if cycle_mstamp w = 0 \<or> is_full_length
         then (let w = w\<lparr>cycle_mstamp := delivered_mstamp sk\<rparr>;
                   w = w\<lparr>last_bw := curr_bw w\<rparr>;
                   w = w\<lparr>curr_bw := ucast (minmax_get (bw w))\<rparr>
               in (w, True))
         else (w, False))"

text \<open>\<^verbatim>\<open>caohejing_rate_bytes_per_sec\<close> (lines 100-109); \<open>gain_arg\<close> is the \<^verbatim>\<open>int\<close>
  parameter, sign-extended when it multiplies the \<^verbatim>\<open>u64\<close> rate.\<close>

definition caohejing_rate_bytes_per_sec :: "sock \<Rightarrow> u64 \<Rightarrow> s32 \<Rightarrow> u64" where
  "caohejing_rate_bytes_per_sec sk rate gain_arg =
     (let mss = mss_cache sk;
          rate = rate * ucast mss;
          rate = rate * scast gain_arg;
          rate = drop_bit CAL_SCALE rate;
          rate = rate * (USEC_PER_SEC div 100 * (100 - 1))
      in drop_bit BW_SCALE rate)"

text \<open>\<^verbatim>\<open>caohejing_bw_to_pacing_rate\<close> (lines 111-118).\<close>

definition caohejing_bw_to_pacing_rate :: "sock \<Rightarrow> u32 \<Rightarrow> s32 \<Rightarrow> u64" where
  "caohejing_bw_to_pacing_rate sk bw_arg gain_arg =
     (let rate = ucast bw_arg;
          rate = caohejing_rate_bytes_per_sec sk rate gain_arg;
          rate = min rate (sk_max_pacing_rate sk)
      in rate)"

text \<open>\<^verbatim>\<open>caohejing_set_pacing_rate\<close> (lines 120-124).\<close>

definition caohejing_set_pacing_rate :: "sock \<Rightarrow> u32 \<Rightarrow> s32 \<Rightarrow> sock" where
  "caohejing_set_pacing_rate sk bw_arg gain_arg =
     (let rate = caohejing_bw_to_pacing_rate sk bw_arg gain_arg
      in sk\<lparr>sk_pacing_rate := rate\<rparr>)"

text \<open>\<^verbatim>\<open>caohejing_min_tso_rate\<close> and \<^verbatim>\<open>caohejing_min_tso_segs\<close> (lines 126-130).\<close>

definition caohejing_min_tso_rate :: u64 where
  "caohejing_min_tso_rate = 1200000"

definition caohejing_min_tso_segs :: "sock \<Rightarrow> u32" where
  "caohejing_min_tso_segs sk =
     (if sk_pacing_rate sk < drop_bit 3 caohejing_min_tso_rate then 1 else 2)"

text \<open>\<^verbatim>\<open>caohejing_tso_segs_goal\<close> (lines 132-141). The division by \<^verbatim>\<open>tp->mss_cache\<close> is
  unchecked.\<close>

definition caohejing_tso_segs_goal :: "sock \<Rightarrow> fault + u32" where
  "caohejing_tso_segs_goal sk =
     (let bytes = (ucast (min (drop_bit (unat (sk_pacing_shift sk)) (sk_pacing_rate sk))
                              (gso_max_size sk - 1 - max_tcp_header sk)) :: u32)
      in if mss_cache sk = 0 then Inl Divide_error
         else (let segs = max (bytes div mss_cache sk) (caohejing_min_tso_segs sk)
               in Inr (min segs 0x7F)))"

section \<open>The per-sample controller\<close>

text \<open>\<^verbatim>\<open>tcp_caohejing_cong_control\<close> (lines 143-237) is one long function; the model
  cuts it at its blank lines into consecutive steps and composes them in order.\<close>

text \<open>Lines 153-156: round accounting.\<close>

definition cong_control_round :: "sock \<Rightarrow> rate_sample \<Rightarrow> caohejing \<Rightarrow> caohejing" where
  "cong_control_round sk rs w =
     (if \<not> before (prior_delivered rs) (next_rtt_delivered w)
      then w\<lparr>next_rtt_delivered := tp_delivered sk, rtt_cnt := rtt_cnt w + 1\<rparr>
      else w)"

text \<open>Lines 158-159: the minimum RTT. \<^verbatim>\<open>rs->rtt_us\<close> is a \<^verbatim>\<open>long\<close>, so both
  comparisons are signed 64-bit ones.\<close>

definition cong_control_min_rtt :: "rate_sample \<Rightarrow> caohejing \<Rightarrow> caohejing" where
  "cong_control_min_rtt rs w =
     (if 0 <s rtt_us rs \<and> rtt_us rs \<le>s ucast (min_rtt_us w)
      then w\<lparr>min_rtt_us := ucast (rtt_us rs)\<rparr>
      else w)"

text \<open>Line 161: \<^verbatim>\<open>bw = (u64)rs->delivered * BW_UNIT\<close>, the \<^verbatim>\<open>s32\<close> sign-extended.\<close>

definition sample_dividend :: "rate_sample \<Rightarrow> u64" where
  "sample_dividend rs = scast (delivered rs) * BW_UNIT"

text \<open>Lines 161-166: the bandwidth sample and the filter. \<^verbatim>\<open>minmax_running_max\<close> takes
  a \<^verbatim>\<open>u32\<close> measurement, so the 64-bit sample is truncated when it is passed.\<close>

definition cong_control_bw :: "rate_sample \<Rightarrow> caohejing \<Rightarrow> fault + caohejing" where
  "cong_control_bw rs w =
     (case do_div (sample_dividend rs) (interval_us rs) of
        Inl e \<Rightarrow> Inl e
      | Inr bwv \<Rightarrow>
          Inr (if bwv > ucast (minmax_get (bw w))
               then (let w = w\<lparr>bw := minmax_running_max (bw w) 10 (rtt_cnt w) (ucast bwv)\<rparr>
                     in w\<lparr>curr_bw := ucast (minmax_get (bw w))\<rparr>)
               else w))"

text \<open>Lines 153-168 together: the private state and \<^verbatim>\<open>is_next\<close> when the gain switch
  is reached.\<close>

definition cong_control_estimate ::
  "sock \<Rightarrow> caohejing \<Rightarrow> rate_sample \<Rightarrow> fault + caohejing \<times> bool" where
  "cong_control_estimate sk w rs =
     (case cong_control_bw rs (cong_control_min_rtt rs (cong_control_round sk rs w)) of
        Inl e \<Rightarrow> Inl e
      | Inr w \<Rightarrow> Inr (is_next_cycle_phase sk w))"

text \<open>Lines 172-192: the \<^verbatim>\<open>switch (w->state)\<close>, with \<open>bwv\<close> the local \<^verbatim>\<open>bw\<close> of
  line 169.\<close>

definition gain_switch :: "caohejing \<Rightarrow> u64 \<Rightarrow> caohejing" where
  "gain_switch w bwv =
     (if state w = UP then
        (if 20 * bwv > 21 * last_bw w
         then w\<lparr>gain := CAL_UNIT * 5 div 4\<rparr>
         else w\<lparr>gain := CAL_UNIT * 3 div 4, state := DOWN\<rparr>)
      else if state w = DOWN then
        (if 19 * last_bw w > 20 * bwv
         then w\<lparr>gain := CAL_UNIT * 5 div 4, state := UP\<rparr>
         else w\<lparr>gain := CAL_UNIT * 3 div 4\<rparr>)
      else w)"

text \<open>Lines 171-193: the switch runs when the \<^verbatim>\<open>int\<close> counter \<^verbatim>\<open>start\<close> is above 3.\<close>

definition cong_control_gain :: "s32 \<Rightarrow> caohejing \<Rightarrow> u64 \<Rightarrow> caohejing" where
  "cong_control_gain st w bwv = (if 3 <s st then gain_switch w bwv else w)"

text \<open>Lines 195-198: the window written to \<^verbatim>\<open>tp->snd_cwnd\<close> at line 199.
  \<^verbatim>\<open>max_t(u32, 2, ...)\<close> converts the 64-bit quotient to \<^verbatim>\<open>u32\<close> first.\<close>

definition cong_control_cwnd :: "sock \<Rightarrow> caohejing \<Rightarrow> u64 \<Rightarrow> fault + u32" where
  "cong_control_cwnd sk w bwv =
     (let bdp = bwv * ucast (min_rtt_us w);
          cwnd = max 2 (ucast ((drop_bit CAL_SCALE (bdp * CAL_UNIT) + BW_UNIT - 1) div BW_UNIT) :: u32)
      in case caohejing_tso_segs_goal sk of
           Inl e \<Rightarrow> Inl e
         | Inr segs \<Rightarrow>
             (let cwnd = cwnd + 3 * segs
              in Inr ((cwnd + 1) AND NOT 1)))"

text \<open>Lines 202-205.\<close>

definition cong_control_reset :: "bool \<Rightarrow> caohejing \<Rightarrow> caohejing" where
  "cong_control_reset is_next w =
     (if is_next
      then (let w = w\<lparr>rtt_cnt := 0\<rparr> in w\<lparr>bw := minmax_reset (bw w) (rtt_cnt w) 0\<rparr>)
      else w)"

text \<open>Lines 210-228: loss and recovery handling, reached when \<^verbatim>\<open>conservation\<close> is not 0.
  \<open>cwnd\<close> is the local variable, which holds \<^verbatim>\<open>old_cwnd\<close> since line 200.\<close>

definition cong_control_recovery ::
  "sock \<Rightarrow> caohejing \<Rightarrow> rate_sample \<Rightarrow> u8 \<Rightarrow> u8 \<Rightarrow> u32 \<Rightarrow> sock \<times> caohejing" where
  "cong_control_recovery sk w rs prev_ca ca_state cwnd =
     (let cwnd = (if 0 <s losses rs
                  then (let d = cwnd - losses rs in if 1 <s d then d else 1)
                  else cwnd);
          (sk, w, cwnd) =
            (if ca_state = TCP_CA_Recovery \<and> prev_ca \<noteq> TCP_CA_Recovery
             then (sk,
                   w\<lparr>next_rtt_delivered := tp_delivered sk, packet_conservation := True\<rparr>,
                   packets_in_flight sk + acked_sacked rs)
             else if prev_ca \<ge> TCP_CA_Recovery \<and> ca_state < TCP_CA_Recovery
             then (sk\<lparr>snd_cwnd := max (prior_cwnd w) (packets_in_flight sk + acked_sacked rs)\<rparr>,
                   w\<lparr>state := UP, gain := CAL_UNIT * 5 div 4, packet_conservation := False\<rparr>,
                   cwnd)
             else (sk, w, cwnd))
      in if packet_conservation w
         then (sk\<lparr>snd_cwnd := max cwnd (packets_in_flight sk + acked_sacked rs)\<rparr>,
               w\<lparr>state := DOWN, gain := CAL_UNIT * 3 div 4\<rparr>)
         else (sk, w))"

text \<open>Lines 147-228: everything before the label \<^verbatim>\<open>done\<close>. The result carries the
  module variables, the socket, the private state and the local \<^verbatim>\<open>bw\<close>.\<close>

definition cong_control_body ::
  "module \<Rightarrow> sock \<Rightarrow> caohejing \<Rightarrow> rate_sample \<Rightarrow> fault + module \<times> sock \<times> caohejing \<times> u64" where
  "cong_control_body g sk w rs =
     (let prev_ca = (ucast (prev_ca_state w) :: u8);
          ca_state = icsk_ca_state sk;
          old_cwnd = snd_cwnd sk
      in case cong_control_estimate sk w rs of
           Inl e \<Rightarrow> Inl e
         | Inr (w, is_next) \<Rightarrow>
             (let bwv = (ucast (minmax_get (bw w)) :: u64);
                  w = cong_control_gain (start g) w bwv;
                  g = g\<lparr>start := start g + 1\<rparr>
              in case cong_control_cwnd sk w bwv of
                   Inl e \<Rightarrow> Inl e
                 | Inr cwnd \<Rightarrow>
                     (let sk = sk\<lparr>snd_cwnd := cwnd\<rparr>;
                          w = cong_control_reset is_next w
                      in if conservation g = 0 then Inr (g, sk, w, bwv)
                         else (let (sk, w) = cong_control_recovery sk w rs prev_ca ca_state old_cwnd
                               in Inr (g, sk, w, bwv)))))"

text \<open>Lines 230-233: the label \<^verbatim>\<open>done\<close>. The \<^verbatim>\<open>printk\<close> of lines 235-236 changes
  nothing and is left out.\<close>

definition cong_control_done :: "sock \<Rightarrow> caohejing \<Rightarrow> u64 \<Rightarrow> sock \<times> caohejing" where
  "cong_control_done sk w bwv =
     (let w = w\<lparr>prev_ca_state := ucast (icsk_ca_state sk)\<rparr>;
          sk = caohejing_set_pacing_rate sk (ucast bwv) (gain w)
      in (sk\<lparr>snd_cwnd := min (snd_cwnd sk) (snd_cwnd_clamp sk)\<rparr>, w))"

definition tcp_caohejing_cong_control ::
  "module \<Rightarrow> sock \<Rightarrow> caohejing \<Rightarrow> rate_sample \<Rightarrow> fault + module \<times> sock \<times> caohejing" where
  "tcp_caohejing_cong_control g sk w rs =
     (case cong_control_body g sk w rs of
        Inl e \<Rightarrow> Inl e
      | Inr (g, sk, w, bwv) \<Rightarrow> (let (sk, w) = cong_control_done sk w bwv in Inr (g, sk, w)))"

section \<open>The host's call sequence\<close>

text \<open>The host invokes the callbacks one at a time, on any of its connections. Each call
  comes with the host's current view of that socket, which the host may have changed in
  any way since the previous call; the private state of each connection and the module
  variables persist from call to call. The connections are numbered from 0 and their
  private states kept in a list; a call that names no existing connection does nothing.
  A fault ends the run. \<^verbatim>\<open>tcp_caohejing_init\<close> is run once per connection before the
  sequence starts.\<close>

datatype callback =
  Cong_control sock rate_sample
| Ssthresh sock
| Undo_cwnd
| Set_state sock u8

fun run_callback :: "module \<Rightarrow> caohejing \<Rightarrow> callback \<Rightarrow> fault + module \<times> caohejing" where
  "run_callback g w (Cong_control sk rs) =
     (case tcp_caohejing_cong_control g sk w rs of
        Inl e \<Rightarrow> Inl e
      | Inr (g', sk', w') \<Rightarrow> Inr (g', w'))"
| "run_callback g w (Ssthresh sk) = Inr (g, fst (tcp_caohejing_ssthresh sk w))"
| "run_callback g w Undo_cwnd = Inr (g, w)"
| "run_callback g w (Set_state sk new_state) = Inr (g, w)"

fun run_calls ::
  "module \<Rightarrow> caohejing list \<Rightarrow> (nat \<times> callback) list \<Rightarrow> fault + module \<times> caohejing list" where
  "run_calls g ws [] = Inr (g, ws)"
| "run_calls g ws ((c, cb) # cs) =
     (if c < length ws
      then (case run_callback g (ws ! c) cb of
              Inl e \<Rightarrow> Inl e
            | Inr (g', w') \<Rightarrow> run_calls g' (ws[c := w']) cs)
      else run_calls g ws cs)"

text \<open>The number of \<^verbatim>\<open>cong_control\<close> calls that a sequence makes on the first \<open>n\<close>
  connections.\<close>

fun cong_control_calls :: "nat \<Rightarrow> (nat \<times> callback) list \<Rightarrow> nat" where
  "cong_control_calls n [] = 0"
| "cong_control_calls n ((c, Cong_control sk rs) # cs) =
     (if c < n then 1 else 0) + cong_control_calls n cs"
| "cong_control_calls n (_ # cs) = cong_control_calls n cs"

section \<open>Connections outside loss recovery\<close>

text \<open>The recovery handling of lines 210-228 does nothing on a call whose congestion state
  is below Recovery when the previous call's state was below Recovery too and packet
  conservation is off. \<open>idle_state\<close> says the latter two of a private state, \<open>idle_call\<close>
  the former of a callback.\<close>

definition idle_state :: "caohejing \<Rightarrow> bool" where
  "idle_state w \<longleftrightarrow> (ucast (prev_ca_state w) :: u8) < TCP_CA_Recovery \<and> \<not> packet_conservation w"

fun idle_call :: "callback \<Rightarrow> bool" where
  "idle_call (Cong_control sk rs) \<longleftrightarrow> icsk_ca_state sk < TCP_CA_Recovery"
| "idle_call _ \<longleftrightarrow> True"

section \<open>The window formula as the specification words it\<close>

text \<open>Section 4.4, step 5 of the specification, over the natural numbers: the
  bandwidth-delay product \<open>bdp = bw * min_rtt_us\<close>, the base window
  \<open>max(2, ceil(bdp * gain / UNIT / BW_UNIT))\<close> with \<open>UNIT = 256\<close> and \<open>BW_UNIT = 2^24\<close>,
  plus 3 times the TSO-segments goal, rounded up to the nearest even number. The ceiling is
  taken as the code takes it, after the division by \<open>UNIT\<close>.\<close>

definition spec_base_cwnd :: "nat \<Rightarrow> nat \<Rightarrow> nat \<Rightarrow> nat \<Rightarrow> nat" where
  "spec_base_cwnd bw_v rtt_v gain_v segs =
     (let bdp = bw_v * rtt_v;
          cwnd = max 2 ((bdp * gain_v div 2 ^ 8 + 2 ^ 24 - 1) div 2 ^ 24);
          cwnd = cwnd + 3 * segs
      in 2 * ((cwnd + 1) div 2))"

section \<open>Example inputs\<close>

text \<open>A zeroed private area, as the host hands it to \<^verbatim>\<open>tcp_caohejing_init\<close>.\<close>

definition zero_caohejing :: caohejing where
  "zero_caohejing =
     \<lparr>rtt = 0, gain = 0, min_rtt_us = 0, rtt_cnt = 0, next_rtt_delivered = 0, prior_cwnd = 0,
      bw = \<lparr>s0 = \<lparr>smp_t = 0, smp_v = 0\<rparr>, s1 = \<lparr>smp_t = 0, smp_v = 0\<rparr>,
            s2 = \<lparr>smp_t = 0, smp_v = 0\<rparr>\<rparr>,
      curr_bw = 0, last_bw = 0, cycle_mstamp = 0, prev_ca_state = 0, state = 0,
      packet_conservation = False\<rparr>"

text \<open>A socket in state Open with 10 packets in flight, an MSS of 1460 bytes, no cap on the
  window or the pacing rate, and the usual values of the kernel constants.\<close>

definition ex_sock :: sock where
  "ex_sock =
     \<lparr>snd_cwnd = 10, snd_cwnd_clamp = 0xFFFFFFFF, snd_ssthresh = 0x7FFFFFFF, tp_delivered = 0,
      delivered_mstamp = 1000, mss_cache = 1460, packets_in_flight = 10, sk_pacing_rate = 0,
      sk_max_pacing_rate = 0xFFFFFFFFFFFFFFFF, sk_pacing_shift = 10, icsk_ca_state = 0,
      gso_max_size = 65536, max_tcp_header = 320\<rparr>"

text \<open>A sample of 1000 packets delivered in 1000 microseconds with an RTT of 100 microseconds:
  one packet per microsecond, that is \<open>BW_UNIT\<close>.\<close>

definition ex_sample :: rate_sample where
  "ex_sample =
     \<lparr>prior_delivered = 0, delivered = 1000, interval_us = 1000, rtt_us = 100, losses = 0,
      acked_sacked = 2\<rparr>"

text \<open>The private state of a connection after three samples whose smallest RTT was 70
  microseconds, with one \<^verbatim>\<open>ssthresh\<close> call in between.\<close>

definition ex_w_rtt70 :: caohejing where
  "ex_w_rtt70 =
     (tcp_caohejing_init zero_caohejing)
       \<lparr>min_rtt_us := 70, rtt_cnt := 2, prior_cwnd := 10,
        bw := \<lparr>s0 = \<lparr>smp_t = 1, smp_v = 16777216\<rparr>, s1 = \<lparr>smp_t = 1, smp_v = 16777216\<rparr>,
               s2 = \<lparr>smp_t = 1, smp_v = 16777216\<rparr>\<rparr>,
        curr_bw := 16777216, last_bw := 16777216, cycle_mstamp := 1000\<rparr>"

text \<open>A socket that the host has just moved to Recovery, with 5000 packets delivered so far,
  and a private state whose \<open>prior_cwnd\<close> snapshot is 20; then the private state after the
  call that enters recovery, and after the call that leaves it.\<close>

definition ex_sock_recovery :: sock where
  "ex_sock_recovery = ex_sock\<lparr>icsk_ca_state := 3, tp_delivered := 5000\<rparr>"

definition ex_w_prior20 :: caohejing where
  "ex_w_prior20 = (tcp_caohejing_init zero_caohejing)\<lparr>prior_cwnd := 20\<rparr>"

definition ex_w_recovery :: caohejing where
  "ex_w_recovery =
     ex_w_prior20
       \<lparr>gain := 192, min_rtt_us := 100, next_rtt_delivered := 5000,
        curr_bw := 16777216, last_bw := 16777216, cycle_mstamp := 1000,
        prev_ca_state := 3, state := 1, packet_conservation := True\<rparr>"

definition ex_w_recovered :: caohejing where
  "ex_w_recovered =
     ex_w_recovery
       \<lparr>gain := 320,
        bw := \<lparr>s0 = \<lparr>smp_t = 0, smp_v = 16777216\<rparr>, s1 = \<lparr>smp_t = 0, smp_v = 16777216\<rparr>,
               s2 = \<lparr>smp_t = 0, smp_v = 16777216\<rparr>\<rparr>,
        prev_ca_state := 0, state := 0, packet_conservation := False\<rparr>"

text \<open>The private state after the first call of a connection, made with \<open>ex_sock\<close> and
  \<open>ex_sample\<close>; and the state that call has reached at the gain switch, before it resets
  the round count and the filter.\<close>

definition ex_w_first :: caohejing where
  "ex_w_first =
     (tcp_caohejing_init zero_caohejing)
       \<lparr>min_rtt_us := 100, curr_bw := 16777216, last_bw := 16777216, cycle_mstamp := 1000\<rparr>"

definition ex_w_first_est :: caohejing where
  "ex_w_first_est =
     ex_w_first
       \<lparr>rtt_cnt := 1,
        bw := \<lparr>s0 = \<lparr>smp_t = 1, smp_v = 16777216\<rparr>, s1 = \<lparr>smp_t = 1, smp_v = 16777216\<rparr>,
               s2 = \<lparr>smp_t = 1, smp_v = 16777216\<rparr>\<rparr>\<rparr>"

text \<open>The private state after a second call, made 10 microseconds after the first with a
  sample of twice the bandwidth.\<close>

definition ex_w_second :: caohejing where
  "ex_w_second =
     ex_w_first
       \<lparr>rtt_cnt := 1,
        bw := \<lparr>s0 = \<lparr>smp_t = 1, smp_v = 33554432\<rparr>, s1 = \<lparr>smp_t = 1, smp_v = 33554432\<rparr>,
               s2 = \<lparr>smp_t = 1, smp_v = 33554432\<rparr>\<rparr>,
        curr_bw := 33554432\<rparr>"

text \<open>The private state of a connection after five calls of which only the first carried a
  delivery: the fifth call, the first one past the warm-up, has moved it to \<open>DOWN\<close>.\<close>

definition ex_w_drained :: caohejing where
  "ex_w_drained = ex_w_first\<lparr>gain := 192, rtt_cnt := 4, state := 1\<rparr>"

section \<open>Auxiliary facts\<close>

subsection \<open>Conversions between the 32-bit and 64-bit types\<close>

lemma sint_ucast_32_64: "sint (ucast (m :: 32 word) :: 64 word) = uint m"
proof -
  have m: "uint m < 2 ^ 32" using uint_bounded [of m] by simp
  have lo: "- (2 ^ 63) \<le> uint m" by (rule order_trans [where y = 0]) simp_all
  have hi: "uint m < 2 ^ 63" using m by simp
  have "sint (ucast m :: 64 word) = signed_take_bit 63 (uint m)"
    by (simp add: signed_ucast_eq)
  also have "\<dots> = uint m"
    using lo hi by (rule signed_take_bit_int_eq_self)
  finally show ?thesis .
qed

lemma pos_signed_le_ucast:
  fixes r :: "64 word" and m :: "32 word"
  assumes "0 <s r" "r \<le>s ucast m"
  shows "uint (ucast r :: 32 word) = sint r" "(ucast r :: 32 word) \<le> m"
proof -
  have p: "0 < sint r" using assms(1) by (simp add: word_sless_alt)
  have q: "sint r \<le> uint m" using assms(2) by (simp add: word_sle_eq sint_ucast_32_64)
  have m: "uint m < 2 ^ 32" using uint_bounded [of m] by simp
  have "uint r = take_bit 64 (sint r)" by (simp add: uint_sint)
  also have "\<dots> = sint r" using p q m by (simp add: take_bit_int_eq_self)
  finally have u: "uint r = sint r" .
  have "uint (ucast r :: 32 word) = take_bit 32 (uint r)" by (simp add: unsigned_ucast_eq)
  also have "\<dots> = sint r" using p q m u by (simp add: take_bit_int_eq_self)
  finally show a: "uint (ucast r :: 32 word) = sint r" .
  show "(ucast r :: 32 word) \<le> m" using a q by (simp add: word_le_def)
qed

subsection \<open>The steps of a successful call\<close>

lemma cong_controlE:
  assumes "tcp_caohejing_cong_control g sk w rs = Inr (g', sk', w')"
  obtains sk2 w7 bwv where
    "cong_control_body g sk w rs = Inr (g', sk2, w7, bwv)"
    "cong_control_done sk2 w7 bwv = (sk', w')"
  using assms
  by (auto simp: tcp_caohejing_cong_control_def split: sum.splits prod.splits)

lemma cong_control_bodyE:
  assumes "cong_control_body g sk w rs = Inr (g', sk2, w7, bwv)"
  obtains w4 nx c where
    "cong_control_estimate sk w rs = Inr (w4, nx)"
    "bwv = ucast (minmax_get (bw w4))"
    "cong_control_cwnd sk (cong_control_gain (start g) w4 bwv) bwv = Inr c"
    "g' = g\<lparr>start := start g + 1\<rparr>"
    "conservation g = 0 \<longrightarrow>
       sk2 = sk\<lparr>snd_cwnd := c\<rparr> \<and>
       w7 = cong_control_reset nx (cong_control_gain (start g) w4 bwv)"
    "conservation g \<noteq> 0 \<longrightarrow>
       cong_control_recovery (sk\<lparr>snd_cwnd := c\<rparr>)
         (cong_control_reset nx (cong_control_gain (start g) w4 bwv)) rs
         (ucast (prev_ca_state w)) (icsk_ca_state sk) (snd_cwnd sk) = (sk2, w7)"
  using assms
  by (auto simp: cong_control_body_def Let_def
           split: sum.splits prod.splits if_splits)

lemma cong_control_estimateE:
  assumes "cong_control_estimate sk w rs = Inr (w4, nx)"
  obtains w3 where
    "cong_control_bw rs (cong_control_min_rtt rs (cong_control_round sk rs w)) = Inr w3"
    "is_next_cycle_phase sk w3 = (w4, nx)"
  using assms by (auto simp: cong_control_estimate_def split: sum.splits)

subsection \<open>Who writes \<open>min_rtt_us\<close>\<close>

lemma min_rtt_step: "min_rtt_us (cong_control_min_rtt rs w) \<le> min_rtt_us w"
  by (simp add: cong_control_min_rtt_def pos_signed_le_ucast)

lemma bw_min_rtt: "cong_control_bw rs w = Inr w' \<Longrightarrow> min_rtt_us w' = min_rtt_us w"
  by (auto simp: cong_control_bw_def Let_def split: sum.splits if_splits)

lemma next_min_rtt: "is_next_cycle_phase sk w = (w', nx) \<Longrightarrow> min_rtt_us w' = min_rtt_us w"
  by (auto simp: is_next_cycle_phase_def Let_def split: if_splits)

lemma estimate_min_rtt:
  assumes "cong_control_estimate sk w rs = Inr (w4, nx)"
  shows "min_rtt_us w4 = min_rtt_us (cong_control_min_rtt rs w)"
proof -
  from assms obtain w3 where
    a: "cong_control_bw rs (cong_control_min_rtt rs (cong_control_round sk rs w)) = Inr w3"
    and b: "is_next_cycle_phase sk w3 = (w4, nx)"
    by (rule cong_control_estimateE)
  have "min_rtt_us (cong_control_min_rtt rs (cong_control_round sk rs w))
        = min_rtt_us (cong_control_min_rtt rs w)"
    by (auto simp: cong_control_min_rtt_def cong_control_round_def)
  with bw_min_rtt [OF a] next_min_rtt [OF b] show ?thesis by simp
qed

lemma gain_min_rtt: "min_rtt_us (cong_control_gain st w b) = min_rtt_us w"
  by (simp add: cong_control_gain_def gain_switch_def)

lemma reset_min_rtt: "min_rtt_us (cong_control_reset n w) = min_rtt_us w"
  by (simp add: cong_control_reset_def Let_def)

lemma recovery_min_rtt:
  "cong_control_recovery sk w rs p c cw = (sk', w') \<Longrightarrow> min_rtt_us w' = min_rtt_us w"
  by (auto simp: cong_control_recovery_def Let_def split: if_splits)

lemma done_min_rtt: "cong_control_done sk w b = (sk', w') \<Longrightarrow> min_rtt_us w' = min_rtt_us w"
  by (auto simp: cong_control_done_def Let_def)

lemma cong_control_min_rtt_us:
  assumes "tcp_caohejing_cong_control g sk w rs = Inr (g', sk', w')"
  shows "min_rtt_us w' = min_rtt_us (cong_control_min_rtt rs w)"
proof -
  from assms obtain sk2 w7 bwv where
    b: "cong_control_body g sk w rs = Inr (g', sk2, w7, bwv)"
    and d: "cong_control_done sk2 w7 bwv = (sk', w')"
    by (rule cong_controlE)
  from b obtain w4 nx c where
    e: "cong_control_estimate sk w rs = Inr (w4, nx)"
    and r0: "conservation g = 0 \<longrightarrow>
       sk2 = sk\<lparr>snd_cwnd := c\<rparr> \<and>
       w7 = cong_control_reset nx (cong_control_gain (start g) w4 bwv)"
    and r1: "conservation g \<noteq> 0 \<longrightarrow>
       cong_control_recovery (sk\<lparr>snd_cwnd := c\<rparr>)
         (cong_control_reset nx (cong_control_gain (start g) w4 bwv)) rs
         (ucast (prev_ca_state w)) (icsk_ca_state sk) (snd_cwnd sk) = (sk2, w7)"
    by (rule cong_control_bodyE)
  have "min_rtt_us w7 = min_rtt_us w4"
  proof (cases "conservation g = 0")
    case True
    with r0 show ?thesis by (simp add: reset_min_rtt gain_min_rtt)
  next
    case False
    with r1 have "cong_control_recovery (sk\<lparr>snd_cwnd := c\<rparr>)
         (cong_control_reset nx (cong_control_gain (start g) w4 bwv)) rs
         (ucast (prev_ca_state w)) (icsk_ca_state sk) (snd_cwnd sk) = (sk2, w7)"
      by simp
    from recovery_min_rtt [OF this] show ?thesis
      by (simp add: reset_min_rtt gain_min_rtt)
  qed
  with done_min_rtt [OF d] estimate_min_rtt [OF e] show ?thesis by simp
qed

lemma run_callback_min_rtt:
  assumes "run_callback g w cb = Inr (g', w')"
  shows "min_rtt_us w' \<le> min_rtt_us w"
proof (cases cb)
  case (Cong_control sk rs)
  with assms obtain sk' where "tcp_caohejing_cong_control g sk w rs = Inr (g', sk', w')"
    by (auto split: sum.splits)
  from cong_control_min_rtt_us [OF this] show ?thesis by (simp add: min_rtt_step)
next
  case (Ssthresh sk)
  with assms show ?thesis by (auto simp: tcp_caohejing_ssthresh_def)
qed (use assms in auto)

lemma run_calls_length: "run_calls g ws cs = Inr (g', ws') \<Longrightarrow> length ws' = length ws"
proof (induction cs arbitrary: g ws)
  case Nil
  then show ?case by simp
next
  case (Cons a cs)
  obtain k cb where a: "a = (k, cb)" by (cases a)
  show ?case
  proof (cases "k < length ws")
    case True
    with a Cons.prems obtain g1 w1 where
      r: "run_calls g1 (ws[k := w1]) cs = Inr (g', ws')"
      by (auto split: sum.splits)
    from Cons.IH [OF r] show ?thesis by simp
  next
    case False
    with a Cons.prems have "run_calls g ws cs = Inr (g', ws')" by simp
    then show ?thesis by (rule Cons.IH)
  qed
qed

lemma run_calls_min_rtt:
  "run_calls g ws cs = Inr (g', ws') \<Longrightarrow> c < length ws \<Longrightarrow>
   min_rtt_us (ws' ! c) \<le> min_rtt_us (ws ! c)"
proof (induction cs arbitrary: g ws)
  case Nil
  then show ?case by simp
next
  case (Cons a cs)
  obtain k cb where a: "a = (k, cb)" by (cases a)
  show ?case
  proof (cases "k < length ws")
    case True
    with a Cons.prems obtain g1 w1 where
      s: "run_callback g (ws ! k) cb = Inr (g1, w1)" and
      r: "run_calls g1 (ws[k := w1]) cs = Inr (g', ws')"
      by (auto split: sum.splits)
    from Cons.prems have "c < length (ws[k := w1])" by simp
    from Cons.IH [OF r this] have "min_rtt_us (ws' ! c) \<le> min_rtt_us (ws[k := w1] ! c)" .
    also have "\<dots> \<le> min_rtt_us (ws ! c)"
      using run_callback_min_rtt [OF s] True by (cases "c = k") simp_all
    finally show ?thesis .
  next
    case False
    with a Cons.prems have "run_calls g ws cs = Inr (g', ws')" by simp
    from Cons.IH [OF this Cons.prems(2)] show ?thesis .
  qed
qed

subsection \<open>Unsigned values of the window arithmetic\<close>

lemma and_not_1_eq: "(y :: 32 word) AND NOT 1 = 2 * drop_bit 1 y"
  by (rule bit_word_eqI) (auto simp: bit_simps bit_double_iff)

lemma unat_and_not_1: "unat ((y :: 32 word) AND NOT 1) = 2 * (unat y div 2)"
proof -
  define z where "z = drop_bit 1 y"
  have b: "unat y < 2 ^ 32" using unsigned_less [of y] by simp
  have d: "unat z = unat y div 2"
    unfolding z_def by (simp only: unat_drop_bit_eq) (simp add: drop_bit_eq_div)
  have "unat (2 :: 32 word) * unat z < 2 ^ LENGTH(32)"
    unfolding d using b by simp
  then have "unat (2 * z) = unat (2 :: 32 word) * unat z"
    by (rule unat_mult_lem [THEN iffD1])
  then have "unat (2 * z) = 2 * (unat y div 2)"
    unfolding d by simp
  then show ?thesis
    unfolding z_def and_not_1_eq .
qed

lemma unat_plus_small:
  fixes a b :: "32 word"
  assumes "unat a + unat b < 2 ^ 32"
  shows "unat (a + b) = unat a + unat b"
proof -
  from assms have "unat a + unat b < 2 ^ LENGTH(32)" by simp
  then show ?thesis by (rule unat_add_lem [THEN iffD1])
qed

lemma unat_times_small:
  fixes a b :: "32 word"
  assumes "unat a * unat b < 2 ^ 32"
  shows "unat (a * b) = unat a * unat b"
proof -
  from assms have "unat a * unat b < 2 ^ LENGTH(32)" by simp
  then show ?thesis by (rule unat_mult_lem [THEN iffD1])
qed

lemma unat_max2: "unat (max 2 (x :: 32 word)) = max 2 (unat x)"
  by (simp add: max_def word_le_nat_alt)

lemma unat_ucast_down:
  fixes x :: "64 word"
  assumes "unat x < 2 ^ 32"
  shows "unat (ucast x :: 32 word) = unat x"
  using assms by (simp add: unsigned_ucast_eq take_bit_nat_eq_self)

lemma unat_ucast_up: "unat (ucast (x :: 32 word) :: 64 word) = unat x"
proof -
  have "unat x < 2 ^ 32" using unsigned_less [of x] by simp
  then have "unat x < 2 ^ 64" by simp
  then show ?thesis by (simp add: unsigned_ucast_eq take_bit_nat_eq_self)
qed

lemma unat_bdp:
  fixes m r :: "32 word"
  shows "unat ((ucast m :: 64 word) * ucast r) = unat m * unat r"
proof -
  have "unat m < 2 ^ 32" "unat r < 2 ^ 32"
    using unsigned_less [of m] unsigned_less [of r] by simp_all
  then have "unat m * unat r < 2 ^ 32 * 2 ^ 32"
    by (intro mult_strict_mono) simp_all
  then have "unat (ucast m :: 64 word) * unat (ucast r :: 64 word) < 2 ^ LENGTH(64)"
    by (simp add: unat_ucast_up)
  then have "unat ((ucast m :: 64 word) * ucast r)
             = unat (ucast m :: 64 word) * unat (ucast r :: 64 word)"
    by (rule unat_mult_lem [THEN iffD1])
  then show ?thesis by (simp add: unat_ucast_up)
qed

lemma unat_ceil_bw_unit:
  fixes bdp :: "64 word"
  assumes "unat bdp < 2 ^ 56"
  shows "unat ((drop_bit CAL_SCALE (bdp * CAL_UNIT) + BW_UNIT - 1) div BW_UNIT)
         = (unat bdp + 2 ^ 24 - 1) div 2 ^ 24"
proof -
  define p where "p = bdp * 256"
  define k :: "64 word" where "k = 16777215"
  have k: "unat k = 2 ^ 24 - 1" by (simp add: k_def)
  have "unat bdp * unat (256 :: 64 word) < 2 ^ LENGTH(64)"
    using assms by simp
  then have "unat (bdp * 256) = unat bdp * unat (256 :: 64 word)"
    by (rule unat_mult_lem [THEN iffD1])
  then have p: "unat p = unat bdp * 256"
    by (simp add: p_def)
  have "unat (drop_bit 8 p) = unat bdp"
    by (simp only: unat_drop_bit_eq p) (simp add: drop_bit_eq_div)
  then have e: "drop_bit 8 p = bdp"
    by (simp only: word_unat_eq_iff)
  have "unat bdp + unat k < 2 ^ LENGTH(64)"
    using assms by (simp add: k)
  then have "unat (bdp + k) = unat bdp + unat k"
    by (rule unat_add_lem [THEN iffD1])
  then have a: "unat (bdp + k) = unat bdp + 2 ^ 24 - 1"
    by (simp add: k)
  have "unat ((bdp + k) div 16777216) = unat (bdp + k) div unat (16777216 :: 64 word)"
    by (rule unat_div)
  then have "unat ((bdp + k) div 16777216) = (unat bdp + 2 ^ 24 - 1) div 2 ^ 24"
    by (simp only: a) simp
  moreover have "(drop_bit CAL_SCALE (bdp * CAL_UNIT) + BW_UNIT - 1) div BW_UNIT
                 = (bdp + k) div 16777216"
    using e by (simp add: CAL_SCALE_def CAL_UNIT_def BW_SCALE_def BW_UNIT_def p_def k_def add.commute)
  ultimately show ?thesis by (simp only:)
qed

lemma tso_segs_goal_le:
  assumes "caohejing_tso_segs_goal sk = Inr segs"
  shows "unat segs \<le> 127"
proof -
  from assms have "segs \<le> 0x7F"
    by (auto simp: caohejing_tso_segs_goal_def Let_def split: if_splits)
  then show ?thesis by (simp add: word_le_nat_alt)
qed

lemma cong_control_cwndE:
  assumes "cong_control_cwnd sk w bwv = Inr c"
  obtains segs where
    "caohejing_tso_segs_goal sk = Inr segs"
    "c = (max 2 (ucast ((drop_bit CAL_SCALE (bwv * ucast (min_rtt_us w) * CAL_UNIT) + BW_UNIT - 1)
                        div BW_UNIT)) + 3 * segs + 1) AND NOT 1"
  using assms by (auto simp: cong_control_cwnd_def Let_def split: sum.splits)

lemma cong_control_cwnd_even:
  assumes "cong_control_cwnd sk w bwv = Inr c"
  shows "even (unat c)"
proof -
  from assms obtain y where "c = y AND NOT 1"
    by (auto elim: cong_control_cwndE)
  then show ?thesis by (simp only: unat_and_not_1) simp
qed

lemma cong_control_cwnd_unat:
  fixes m :: "32 word"
  assumes c: "cong_control_cwnd sk w (ucast m) = Inr c"
    and s: "caohejing_tso_segs_goal sk = Inr segs"
    and b: "max 2 ((unat m * unat (min_rtt_us w) + 2 ^ 24 - 1) div 2 ^ 24) + 3 * unat segs + 1 < 2 ^ 32"
  shows "unat c = 2 * ((max 2 ((unat m * unat (min_rtt_us w) + 2 ^ 24 - 1) div 2 ^ 24)
                        + 3 * unat segs + 1) div 2)"
proof -
  define bdp :: "64 word" where "bdp = ucast m * ucast (min_rtt_us w)"
  define q where "q = (unat m * unat (min_rtt_us w) + 2 ^ 24 - 1) div 2 ^ 24"
  define x :: "64 word" where
    "x = (drop_bit CAL_SCALE (bdp * CAL_UNIT) + BW_UNIT - 1) div BW_UNIT"
  have ub: "unat bdp = unat m * unat (min_rtt_us w)"
    by (simp add: bdp_def unat_bdp)
  from b have q: "q < 2 ^ 32" by (simp add: q_def)
  have "unat bdp < 2 ^ 56"
  proof (rule ccontr)
    assume "\<not> unat bdp < 2 ^ 56"
    then have "2 ^ 56 \<le> unat m * unat (min_rtt_us w)" by (simp add: ub)
    then have "2 ^ 56 div 2 ^ 24 \<le> (unat m * unat (min_rtt_us w) + 2 ^ 24 - 1) div (2 ^ 24 :: nat)"
      by (intro div_le_mono) simp
    with q show False by (simp add: q_def)
  qed
  then have ux: "unat x = q"
    by (simp add: x_def q_def unat_ceil_bw_unit ub)
  with q have u32: "unat (ucast x :: 32 word) = q"
    by (simp add: unat_ucast_down)
  have u3: "unat (3 * segs) = 3 * unat segs"
    using tso_segs_goal_le [OF s] by (intro unat_times_small [where a = 3, simplified]) simp
  have s1: "unat (max 2 (ucast x :: 32 word) + 3 * segs) = max 2 q + 3 * unat segs"
    using b by (subst unat_plus_small) (simp_all add: unat_max2 u32 u3 q_def)
  have s2: "unat (max 2 (ucast x :: 32 word) + 3 * segs + 1) = max 2 q + 3 * unat segs + 1"
    using b by (subst unat_plus_small) (simp_all add: s1 q_def)
  from c s have "c = (max 2 (ucast x :: 32 word) + 3 * segs + 1) AND NOT 1"
    by (auto simp: x_def bdp_def elim!: cong_control_cwndE)
  then have "unat c = 2 * ((max 2 q + 3 * unat segs + 1) div 2)"
    by (simp only: unat_and_not_1 s2)
  then show ?thesis by (simp only: q_def)
qed

subsection \<open>The recovery block and the label \<open>done\<close>\<close>

lemma gain_values:
  "(CAL_UNIT * 5 div 4 :: 32 word) = 320" "(CAL_UNIT * 3 div 4 :: 32 word) = 192"
  by (simp_all add: CAL_UNIT_def CAL_SCALE_def)

lemma cong_control_doneE:
  assumes "cong_control_done sk2 w7 bwv = (sk', w')"
  obtains
    "sk' = sk2\<lparr>sk_pacing_rate := caohejing_bw_to_pacing_rate sk2 (ucast bwv) (gain w7),
               snd_cwnd := min (snd_cwnd sk2) (snd_cwnd_clamp sk2)\<rparr>"
    "w' = w7\<lparr>prev_ca_state := ucast (icsk_ca_state sk2)\<rparr>"
  using assms
  by (auto simp: cong_control_done_def caohejing_set_pacing_rate_def Let_def)

lemma recovery_entry_eq:
  assumes "ca = TCP_CA_Recovery" "prev \<noteq> TCP_CA_Recovery"
  shows "cong_control_recovery sk w rs prev ca cw =
           (sk\<lparr>snd_cwnd := packets_in_flight sk + acked_sacked rs\<rparr>,
            w\<lparr>next_rtt_delivered := tp_delivered sk, packet_conservation := True,
              state := DOWN, gain := CAL_UNIT * 3 div 4\<rparr>)"
  using assms by (simp add: cong_control_recovery_def Let_def)

lemma recovery_exit_eq:
  assumes "prev \<ge> TCP_CA_Recovery" "ca < TCP_CA_Recovery"
  shows "cong_control_recovery sk w rs prev ca cw =
           (sk\<lparr>snd_cwnd := max (prior_cwnd w) (packets_in_flight sk + acked_sacked rs)\<rparr>,
            w\<lparr>state := UP, gain := CAL_UNIT * 5 div 4, packet_conservation := False\<rparr>)"
  using assms by (auto simp: cong_control_recovery_def Let_def)

lemma recovery_idle_eq:
  assumes "ca < TCP_CA_Recovery" "prev < TCP_CA_Recovery" "\<not> packet_conservation w"
  shows "cong_control_recovery sk w rs prev ca cw = (sk, w)"
  using assms by (auto simp: cong_control_recovery_def Let_def)

lemma recovery_sock:
  assumes "cong_control_recovery sk w rs prev ca cw = (sk', w')"
  shows "sk' = sk\<lparr>snd_cwnd := snd_cwnd sk'\<rparr>"
  using assms by (auto simp: cong_control_recovery_def Let_def split: if_splits)

lemma cong_control_body_sock:
  assumes "cong_control_body g sk w rs = Inr (g', sk2, w7, bwv)"
  shows "sk2 = sk\<lparr>snd_cwnd := snd_cwnd sk2\<rparr>"
proof -
  from assms obtain w4 nx c where
    r0: "conservation g = 0 \<longrightarrow>
       sk2 = sk\<lparr>snd_cwnd := c\<rparr> \<and>
       w7 = cong_control_reset nx (cong_control_gain (start g) w4 bwv)"
    and r1: "conservation g \<noteq> 0 \<longrightarrow>
       cong_control_recovery (sk\<lparr>snd_cwnd := c\<rparr>)
         (cong_control_reset nx (cong_control_gain (start g) w4 bwv)) rs
         (ucast (prev_ca_state w)) (icsk_ca_state sk) (snd_cwnd sk) = (sk2, w7)"
    by (rule cong_control_bodyE)
  show ?thesis
  proof (cases "conservation g = 0")
    case True
    with r0 show ?thesis by simp
  next
    case False
    with r1 have "sk2 = sk\<lparr>snd_cwnd := c\<rparr>\<lparr>snd_cwnd := snd_cwnd sk2\<rparr>"
      by (blast dest: recovery_sock)
    then show ?thesis by simp
  qed
qed

subsection \<open>Who writes \<open>prior_cwnd\<close>\<close>

lemma estimate_prior_cwnd:
  assumes "cong_control_estimate sk w rs = Inr (w4, nx)"
  shows "prior_cwnd w4 = prior_cwnd w"
  using assms
  by (auto simp: cong_control_estimate_def cong_control_bw_def cong_control_min_rtt_def
        cong_control_round_def is_next_cycle_phase_def Let_def
      split: sum.splits if_splits)

lemma gain_prior_cwnd: "prior_cwnd (cong_control_gain st w b) = prior_cwnd w"
  by (simp add: cong_control_gain_def gain_switch_def)

lemma reset_prior_cwnd: "prior_cwnd (cong_control_reset n w) = prior_cwnd w"
  by (simp add: cong_control_reset_def Let_def)

subsection \<open>Unsigned values of the pacing arithmetic\<close>

lemma unat_scast_nonneg:
  fixes gn :: "32 word"
  assumes "0 \<le> sint gn"
  shows "unat (scast gn :: 64 word) = unat gn"
proof -
  have "sint gn < 2 ^ (LENGTH(32) - 1)" by (rule sint_lt)
  then have lt: "sint gn < 2147483648" by simp
  have "k < 2 ^ 32 \<and> k < 2 ^ 64" if "k < 2147483648" for k :: int
    using that by simp
  from this [OF lt] have b32: "sint gn < 2 ^ 32" and b64: "sint gn < 2 ^ 64"
    by blast+
  have "uint gn = take_bit LENGTH(32) (sint gn)" by (rule uint_sint)
  also have "\<dots> = take_bit 32 (sint gn)" by simp
  also have "\<dots> = sint gn" using assms b32 by (rule take_bit_int_eq_self)
  finally have s: "uint gn = sint gn" .
  have "(scast gn :: 64 word) = word_of_int (sint gn)" by (rule scast_eq)
  then have "uint (scast gn :: 64 word) = take_bit 64 (sint gn)"
    by (simp only: unsigned_of_int) simp
  also have "\<dots> = sint gn" using assms b64 by (rule take_bit_int_eq_self)
  finally have "uint (scast gn :: 64 word) = uint gn" by (simp only: s)
  then show ?thesis by (simp only: unat_eq_nat_uint)
qed

lemma unat_times_small64:
  fixes a b :: "64 word"
  assumes "unat a * unat b < 2 ^ 64"
  shows "unat (a * b) = unat a * unat b"
proof -
  from assms have "unat a * unat b < 2 ^ LENGTH(64)" by simp
  then show ?thesis by (rule unat_mult_lem [THEN iffD1])
qed

lemma unat_min64: "unat (min a (b :: 64 word)) = min (unat a) (unat b)"
  by (simp add: min_def word_le_nat_alt)

lemma ucast_ucast_32_64: "(ucast (ucast (m :: 32 word) :: 64 word) :: 32 word) = m"
  by (simp add: word_unat_eq_iff unat_ucast_down unat_ucast_up
        order_less_le_trans [OF unsigned_less])

lemma rate_no_overflow:
  fixes x :: nat
  assumes "x div 256 * 990000 < 2 ^ 64"
  shows "x < 2 ^ 64"
proof -
  from assms have "x div 256 < 2 ^ 45" by simp
  then show ?thesis by simp
qed

lemma unat_rate_bytes_per_sec:
  fixes b gn :: "32 word"
  assumes g: "0 \<le> sint gn"
    and o: "unat b * unat (mss_cache sk) * unat gn div 2 ^ 8 * 990000 < 2 ^ 64"
  shows "unat (caohejing_rate_bytes_per_sec sk (ucast b) gn)
         = unat b * unat (mss_cache sk) * unat gn div 2 ^ 8 * 990000 div 2 ^ 24"
proof -
  define r1 :: "64 word" where "r1 = ucast b * ucast (mss_cache sk)"
  define r2 where "r2 = r1 * scast gn"
  define r3 where "r3 = drop_bit 8 r2"
  define r4 where "r4 = r3 * 990000"
  define x where "x = unat b * unat (mss_cache sk) * unat gn"
  from o have o': "x div 256 * 990000 < 2 ^ 64" by (simp add: x_def)
  have u1: "unat r1 = unat b * unat (mss_cache sk)"
    by (simp add: r1_def unat_bdp)
  have "unat r1 * unat (scast gn :: 64 word) < 2 ^ 64"
    using rate_no_overflow [OF o'] by (simp add: u1 unat_scast_nonneg [OF g] x_def)
  then have u2: "unat r2 = x"
    by (simp add: r2_def unat_times_small64 u1 unat_scast_nonneg [OF g] x_def)
  have u3: "unat r3 = x div 256"
    unfolding r3_def by (simp only: unat_drop_bit_eq u2) (simp add: drop_bit_eq_div)
  have "unat r3 * unat (990000 :: 64 word) < 2 ^ 64"
    using o' by (simp add: u3)
  then have "unat r4 = unat r3 * unat (990000 :: 64 word)"
    unfolding r4_def by (rule unat_times_small64)
  then have u4: "unat r4 = x div 256 * 990000"
    by (simp add: u3)
  have "unat (drop_bit 24 r4) = x div 256 * 990000 div 2 ^ 24"
    by (simp only: unat_drop_bit_eq u4) (simp add: drop_bit_eq_div)
  moreover have "caohejing_rate_bytes_per_sec sk (ucast b) gn = drop_bit 24 r4"
    by (simp add: caohejing_rate_bytes_per_sec_def Let_def r4_def r3_def r2_def r1_def
          CAL_SCALE_def BW_SCALE_def USEC_PER_SEC_def)
  ultimately show ?thesis by (simp add: x_def)
qed

lemma bw_to_pacing_rate_sock:
  "caohejing_bw_to_pacing_rate (sk\<lparr>snd_cwnd := v\<rparr>) b gn = caohejing_bw_to_pacing_rate sk b gn"
  by (simp add: caohejing_bw_to_pacing_rate_def caohejing_rate_bytes_per_sec_def)

lemma cong_control_pacing_rate:
  assumes "tcp_caohejing_cong_control g sk w rs = Inr (g', sk', w')"
  shows "\<exists>w4 nx. cong_control_estimate sk w rs = Inr (w4, nx) \<and>
           sk_pacing_rate sk' = caohejing_bw_to_pacing_rate sk (minmax_get (bw w4)) (gain w')"
proof -
  from assms obtain sk2 w7 bwv where
    b: "cong_control_body g sk w rs = Inr (g', sk2, w7, bwv)"
    and d: "cong_control_done sk2 w7 bwv = (sk', w')"
    by (rule cong_controlE)
  from b obtain w4 nx where
    e: "cong_control_estimate sk w rs = Inr (w4, nx)"
    and v: "bwv = ucast (minmax_get (bw w4))"
    by (rule cong_control_bodyE)
  from d have "sk_pacing_rate sk' = caohejing_bw_to_pacing_rate sk2 (ucast bwv) (gain w')"
    by (auto elim!: cong_control_doneE)
  also have "\<dots> = caohejing_bw_to_pacing_rate sk (ucast bwv) (gain w')"
    by (subst cong_control_body_sock [OF b]) (rule bw_to_pacing_rate_sock)
  finally show ?thesis using e v by (simp add: ucast_ucast_32_64)
qed

subsection \<open>What the estimator leaves alone, and calls without recovery handling\<close>

lemma estimate_frame:
  assumes "cong_control_estimate sk w rs = Inr (w4, nx)"
  shows "gain w4 = gain w" "state w4 = state w" "packet_conservation w4 = packet_conservation w"
    "prev_ca_state w4 = prev_ca_state w"
  using assms
  by (auto simp: cong_control_estimate_def cong_control_bw_def cong_control_min_rtt_def
        cong_control_round_def is_next_cycle_phase_def Let_def
      split: sum.splits if_splits)

lemma gain_frame:
  "packet_conservation (cong_control_gain st w b) = packet_conservation w"
  "last_bw (cong_control_gain st w b) = last_bw w"
  "curr_bw (cong_control_gain st w b) = curr_bw w"
  "bw (cong_control_gain st w b) = bw w"
  by (simp_all add: cong_control_gain_def gain_switch_def)

lemma reset_frame:
  "packet_conservation (cong_control_reset n w) = packet_conservation w"
  "gain (cong_control_reset n w) = gain w"
  "state (cong_control_reset n w) = state w"
  "last_bw (cong_control_reset n w) = last_bw w"
  "curr_bw (cong_control_reset n w) = curr_bw w"
  by (simp_all add: cong_control_reset_def Let_def)

text \<open>The recovery handling is idle when the conservative mode is off, or when neither this
  call's nor the previous call's congestion state reaches Recovery and packet conservation
  is off. The window then is the one of line 199, capped at line 233.\<close>

lemma cong_control_idle:
  assumes r: "tcp_caohejing_cong_control g sk w rs = Inr (g', sk', w')"
    and i: "conservation g = 0 \<or>
            (icsk_ca_state sk < TCP_CA_Recovery \<and>
             (ucast (prev_ca_state w) :: u8) < TCP_CA_Recovery \<and> \<not> packet_conservation w)"
  obtains w4 nx c where
    "cong_control_estimate sk w rs = Inr (w4, nx)"
    "cong_control_cwnd sk (cong_control_gain (start g) w4 (ucast (minmax_get (bw w4))))
       (ucast (minmax_get (bw w4))) = Inr c"
    "snd_cwnd sk' = min c (snd_cwnd_clamp sk)"
    "w' = (cong_control_reset nx (cong_control_gain (start g) w4 (ucast (minmax_get (bw w4)))))
            \<lparr>prev_ca_state := ucast (icsk_ca_state sk)\<rparr>"
proof -
  from r obtain sk2 w7 bwv where
    b: "cong_control_body g sk w rs = Inr (g', sk2, w7, bwv)"
    and d: "cong_control_done sk2 w7 bwv = (sk', w')"
    by (rule cong_controlE)
  from b obtain w4 nx c where
    e: "cong_control_estimate sk w rs = Inr (w4, nx)"
    and v: "bwv = ucast (minmax_get (bw w4))"
    and c: "cong_control_cwnd sk (cong_control_gain (start g) w4 bwv) bwv = Inr c"
    and r0: "conservation g = 0 \<longrightarrow>
       sk2 = sk\<lparr>snd_cwnd := c\<rparr> \<and>
       w7 = cong_control_reset nx (cong_control_gain (start g) w4 bwv)"
    and r1: "conservation g \<noteq> 0 \<longrightarrow>
       cong_control_recovery (sk\<lparr>snd_cwnd := c\<rparr>)
         (cong_control_reset nx (cong_control_gain (start g) w4 bwv)) rs
         (ucast (prev_ca_state w)) (icsk_ca_state sk) (snd_cwnd sk) = (sk2, w7)"
    by (rule cong_control_bodyE)
  define w6 where "w6 = cong_control_reset nx (cong_control_gain (start g) w4 bwv)"
  have pc: "packet_conservation w6 = packet_conservation w"
    by (simp add: w6_def reset_frame gain_frame estimate_frame(3) [OF e])
  have s: "sk2 = sk\<lparr>snd_cwnd := c\<rparr> \<and> w7 = w6"
  proof (cases "conservation g = 0")
    case True
    with r0 show ?thesis by (simp add: w6_def)
  next
    case False
    with i have "icsk_ca_state sk < TCP_CA_Recovery"
      "(ucast (prev_ca_state w) :: u8) < TCP_CA_Recovery" "\<not> packet_conservation w6"
      by (simp_all add: pc)
    then have "cong_control_recovery (sk\<lparr>snd_cwnd := c\<rparr>) w6 rs
         (ucast (prev_ca_state w)) (icsk_ca_state sk) (snd_cwnd sk) = (sk\<lparr>snd_cwnd := c\<rparr>, w6)"
      by (rule recovery_idle_eq)
    with r1 False show ?thesis by (simp add: w6_def)
  qed
  with d have "snd_cwnd sk' = min c (snd_cwnd_clamp sk)"
    "w' = w6\<lparr>prev_ca_state := ucast (icsk_ca_state sk)\<rparr>"
    by (auto elim!: cong_control_doneE)
  with e c v that show ?thesis by (simp add: w6_def)
qed

lemma cong_control_line_199:
  assumes "tcp_caohejing_cong_control g sk w rs = Inr (g', sk', w')"
  obtains w4 nx c segs where
    "cong_control_estimate sk w rs = Inr (w4, nx)"
    "caohejing_tso_segs_goal sk = Inr segs"
    "cong_control_cwnd sk (cong_control_gain (start g) w4 (ucast (minmax_get (bw w4))))
       (ucast (minmax_get (bw w4))) = Inr c"
proof -
  from assms obtain sk2 w7 bwv where
    b: "cong_control_body g sk w rs = Inr (g', sk2, w7, bwv)"
    by (rule cong_controlE)
  from b obtain w4 nx c where
    e: "cong_control_estimate sk w rs = Inr (w4, nx)"
    and v: "bwv = ucast (minmax_get (bw w4))"
    and c: "cong_control_cwnd sk (cong_control_gain (start g) w4 bwv) bwv = Inr c"
    by (rule cong_control_bodyE)
  from c obtain segs where "caohejing_tso_segs_goal sk = Inr segs"
    by (rule cong_control_cwndE)
  with e c v that show ?thesis by simp
qed

lemma spec_base_cwnd_unit:
  "spec_base_cwnd b r 256 s = 2 * ((max 2 ((b * r + 2 ^ 24 - 1) div 2 ^ 24) + 3 * s + 1) div 2)"
  by (simp add: spec_base_cwnd_def Let_def)

lemma spec_base_cwnd_fits:
  assumes "spec_base_cwnd b r 256 s < 2 ^ 32"
  shows "max 2 ((b * r + 2 ^ 24 - 1) div 2 ^ 24) + 3 * s + 1 < 2 ^ 32"
proof -
  define n where "n = max 2 ((b * r + 2 ^ 24 - 1) div 2 ^ 24) + 3 * s + 1"
  from assms have "2 * (n div 2) < 4294967296"
    by (simp add: spec_base_cwnd_unit n_def)
  then have "n < 4294967296" by presburger
  then show ?thesis by (simp add: n_def)
qed

lemma cong_control_cwnd_spec:
  fixes m :: "32 word"
  assumes c: "cong_control_cwnd sk w (ucast m) = Inr c"
    and s: "caohejing_tso_segs_goal sk = Inr segs"
    and b: "spec_base_cwnd (unat m) (unat (min_rtt_us w)) 256 (unat segs) < 2 ^ 32"
  shows "unat c = spec_base_cwnd (unat m) (unat (min_rtt_us w)) 256 (unat segs)"
  using cong_control_cwnd_unat [OF c s spec_base_cwnd_fits [OF b]]
  by (simp only: spec_base_cwnd_unit)

subsection \<open>The bandwidth step and the cycle boundary\<close>

lemma do_div_zero:
  assumes "(ucast base :: 32 word) = 0"
  shows "do_div n base = Inl Divide_error"
  using assms by (simp add: do_div_def)

lemma do_div_nonzero:
  assumes "(ucast base :: 32 word) \<noteq> 0"
  shows "\<exists>q. do_div n base = Inr q \<and> unat q = unat n div unat (ucast base :: 32 word)"
  using assms by (simp add: do_div_def unat_div unat_ucast_up)

lemma cong_control_bw_fault:
  assumes "do_div (sample_dividend rs) (interval_us rs) = Inl e"
  shows "tcp_caohejing_cong_control g sk w rs = Inl e"
  using assms
  by (simp add: tcp_caohejing_cong_control_def cong_control_body_def cong_control_estimate_def
        cong_control_bw_def)

lemma cong_control_bw_cases:
  assumes "do_div (sample_dividend rs) (interval_us rs) = Inr q"
  shows "q \<le> ucast (minmax_get (bw w)) \<Longrightarrow> cong_control_bw rs w = Inr w"
    and "ucast (minmax_get (bw w)) < q \<Longrightarrow>
         cong_control_bw rs w =
           Inr (w\<lparr>bw := minmax_running_max (bw w) 10 (rtt_cnt w) (ucast q),
                  curr_bw := ucast (minmax_get (minmax_running_max (bw w) 10 (rtt_cnt w) (ucast q)))\<rparr>)"
  using assms by (auto simp: cong_control_bw_def Let_def)

lemma is_next_cycle_phase_no:
  assumes "cycle_mstamp w \<noteq> 0"
    and "\<not> min_rtt_us w < tcp_stamp_us_delta (delivered_mstamp sk) (cycle_mstamp w)"
  shows "is_next_cycle_phase sk w = (w, False)"
  using assms by (simp add: is_next_cycle_phase_def)

lemma recovery_frame:
  assumes "cong_control_recovery sk w rs p c cw = (sk', w')"
  shows "last_bw w' = last_bw w" "curr_bw w' = curr_bw w" "bw w' = bw w"
    "cycle_mstamp w' = cycle_mstamp w"
  using assms by (auto simp: cong_control_recovery_def Let_def split: if_splits)

lemma cong_control_body_tail:
  assumes "cong_control_body g sk w rs = Inr (g', sk2, w7, bwv)"
  obtains w4 nx where
    "cong_control_estimate sk w rs = Inr (w4, nx)"
    "last_bw w7 = last_bw w4" "curr_bw w7 = curr_bw w4"
    "bw w7 = bw (cong_control_reset nx w4)"
proof -
  from assms obtain w4 nx c where
    e: "cong_control_estimate sk w rs = Inr (w4, nx)"
    and r0: "conservation g = 0 \<longrightarrow>
       sk2 = sk\<lparr>snd_cwnd := c\<rparr> \<and>
       w7 = cong_control_reset nx (cong_control_gain (start g) w4 bwv)"
    and r1: "conservation g \<noteq> 0 \<longrightarrow>
       cong_control_recovery (sk\<lparr>snd_cwnd := c\<rparr>)
         (cong_control_reset nx (cong_control_gain (start g) w4 bwv)) rs
         (ucast (prev_ca_state w)) (icsk_ca_state sk) (snd_cwnd sk) = (sk2, w7)"
    by (rule cong_control_bodyE)
  define w6 where "w6 = cong_control_reset nx (cong_control_gain (start g) w4 bwv)"
  have w6: "last_bw w6 = last_bw w4" "curr_bw w6 = curr_bw w4"
    "bw w6 = bw (cong_control_reset nx w4)"
    by (simp_all add: w6_def reset_frame gain_frame cong_control_reset_def Let_def)
  have "last_bw w7 = last_bw w6 \<and> curr_bw w7 = curr_bw w6 \<and> bw w7 = bw w6"
  proof (cases "conservation g = 0")
    case True
    with r0 show ?thesis by (simp add: w6_def)
  next
    case False
    with r1 have "cong_control_recovery (sk\<lparr>snd_cwnd := c\<rparr>) w6 rs
         (ucast (prev_ca_state w)) (icsk_ca_state sk) (snd_cwnd sk) = (sk2, w7)"
      by (simp add: w6_def)
    from recovery_frame [OF this] show ?thesis by simp
  qed
  with w6 e that show ?thesis by simp
qed

lemma cong_control_tail:
  assumes "tcp_caohejing_cong_control g sk w rs = Inr (g', sk', w')"
  obtains w4 nx where
    "cong_control_estimate sk w rs = Inr (w4, nx)"
    "last_bw w' = last_bw w4" "curr_bw w' = curr_bw w4"
    "bw w' = bw (cong_control_reset nx w4)"
proof -
  from assms obtain sk2 w7 bwv where
    b: "cong_control_body g sk w rs = Inr (g', sk2, w7, bwv)"
    and d: "cong_control_done sk2 w7 bwv = (sk', w')"
    by (rule cong_controlE)
  from d have "last_bw w' = last_bw w7" "curr_bw w' = curr_bw w7" "bw w' = bw w7"
    by (auto elim!: cong_control_doneE)
  with b that show ?thesis by (auto elim!: cong_control_body_tail)
qed

lemma estimate_mid_window:
  assumes e: "cong_control_estimate sk w rs = Inr (w4, nx)"
    and c: "cycle_mstamp w \<noteq> 0"
    and f: "\<not> min_rtt_us w4 < tcp_stamp_us_delta (delivered_mstamp sk) (cycle_mstamp w)"
  shows "\<not> nx"
    and "cong_control_bw rs (cong_control_min_rtt rs (cong_control_round sk rs w)) = Inr w4"
proof -
  define w2 where "w2 = cong_control_min_rtt rs (cong_control_round sk rs w)"
  from e obtain w3 where
    a: "cong_control_bw rs w2 = Inr w3"
    and b: "is_next_cycle_phase sk w3 = (w4, nx)"
    unfolding w2_def by (rule cong_control_estimateE)
  have "cycle_mstamp w2 = cycle_mstamp w"
    by (simp add: w2_def cong_control_min_rtt_def cong_control_round_def)
  with a have c3: "cycle_mstamp w3 = cycle_mstamp w"
    by (auto simp: cong_control_bw_def Let_def split: sum.splits if_splits)
  from next_min_rtt [OF b] have m: "min_rtt_us w3 = min_rtt_us w4" by simp
  from c f have "is_next_cycle_phase sk w3 = (w3, False)"
    by (intro is_next_cycle_phase_no) (simp_all add: c3 m)
  with b have "w4 = w3" "\<not> nx" by simp_all
  with a show "\<not> nx"
    and "cong_control_bw rs (cong_control_min_rtt rs (cong_control_round sk rs w)) = Inr w4"
    by (simp_all add: w2_def)
qed

subsection \<open>The gain switch at the end of an idle call\<close>

lemma gain_switch_cases:
  "state w = UP \<Longrightarrow> 21 * last_bw w < 20 * b \<Longrightarrow>
     state (gain_switch w b) = UP \<and> gain (gain_switch w b) = 320"
  "state w = UP \<Longrightarrow> \<not> 21 * last_bw w < 20 * b \<Longrightarrow>
     state (gain_switch w b) = DOWN \<and> gain (gain_switch w b) = 192"
  "state w = DOWN \<Longrightarrow> 20 * b < 19 * last_bw w \<Longrightarrow>
     state (gain_switch w b) = UP \<and> gain (gain_switch w b) = 320"
  "state w = DOWN \<Longrightarrow> \<not> 20 * b < 19 * last_bw w \<Longrightarrow>
     state (gain_switch w b) = DOWN \<and> gain (gain_switch w b) = 192"
  "state w \<noteq> UP \<Longrightarrow> state w \<noteq> DOWN \<Longrightarrow> gain_switch w b = w"
  by (simp_all add: gain_switch_def gain_values UP_def DOWN_def)

lemma cong_control_idle_gain:
  assumes r: "tcp_caohejing_cong_control g sk w rs = Inr (g', sk', w')"
    and i: "conservation g = 0 \<or>
            (icsk_ca_state sk < TCP_CA_Recovery \<and>
             (ucast (prev_ca_state w) :: u8) < TCP_CA_Recovery \<and> \<not> packet_conservation w)"
  obtains w4 nx where
    "cong_control_estimate sk w rs = Inr (w4, nx)"
    "state w4 = state w" "gain w4 = gain w"
    "state w' = state (cong_control_gain (start g) w4 (ucast (minmax_get (bw w4))))"
    "gain w' = gain (cong_control_gain (start g) w4 (ucast (minmax_get (bw w4))))"
    "packet_conservation w' = packet_conservation w"
    "prev_ca_state w' = ucast (icsk_ca_state sk)"
proof -
  from cong_control_idle [OF r i] obtain w4 nx where
    e: "cong_control_estimate sk w rs = Inr (w4, nx)"
    and w': "w' = (cong_control_reset nx
                    (cong_control_gain (start g) w4 (ucast (minmax_get (bw w4)))))
                  \<lparr>prev_ca_state := ucast (icsk_ca_state sk)\<rparr>"
    by blast
  from w' have
    "state w' = state (cong_control_gain (start g) w4 (ucast (minmax_get (bw w4))))"
    "gain w' = gain (cong_control_gain (start g) w4 (ucast (minmax_get (bw w4))))"
    "packet_conservation w' = packet_conservation w"
    "prev_ca_state w' = ucast (icsk_ca_state sk)"
    by (simp_all add: reset_frame gain_frame estimate_frame(3) [OF e])
  with e estimate_frame(1,2) [OF e] that show ?thesis by blast
qed

subsection \<open>The warm-up counter\<close>

lemma word_le_3_cases:
  fixes x :: "'a::len word"
  assumes "unat x \<le> 3"
  shows "x = 0 \<or> x = 1 \<or> x = 2 \<or> x = 3"
proof -
  from assms consider "unat x = 0" | "unat x = 1" | "unat x = 2" | "unat x = 3"
    by linarith
  then show ?thesis
  proof cases
    case 1
    then show ?thesis by (simp add: unat_eq_zero)
  next
    case 2
    then have "of_nat (unat x) = (of_nat 1 :: 'a word)" by (simp only:)
    then show ?thesis by simp
  next
    case 3
    then have "of_nat (unat x) = (of_nat 2 :: 'a word)" by (simp only:)
    then show ?thesis by simp
  next
    case 4
    then have "of_nat (unat x) = (of_nat 3 :: 'a word)" by (simp only:)
    then show ?thesis by simp
  qed
qed

lemma not_sless_small:
  fixes x :: "32 word"
  assumes "unat x \<le> 3"
  shows "\<not> 3 <s x"
  using word_le_3_cases [OF assms] by (auto simp: word_sless_alt)

lemma ucast_ca_state:
  fixes ca :: "8 word"
  assumes "ca < TCP_CA_Recovery"
  shows "(ucast (ucast ca :: 3 word) :: 8 word) < TCP_CA_Recovery"
proof -
  from assms have "unat ca \<le> 3" by (simp add: TCP_CA_Recovery_def word_less_nat_alt)
  from word_le_3_cases [OF this] assms show ?thesis
    by (auto simp: TCP_CA_Recovery_def)
qed

lemma cong_control_module:
  assumes "tcp_caohejing_cong_control g sk w rs = Inr (g', sk', w')"
  shows "g' = g\<lparr>start := start g + 1\<rparr>"
proof -
  from assms obtain sk2 w7 bwv where
    "cong_control_body g sk w rs = Inr (g', sk2, w7, bwv)"
    by (rule cong_controlE)
  then show ?thesis by (rule cong_control_bodyE)
qed

lemma cong_control_warm_up:
  assumes r: "tcp_caohejing_cong_control g sk w rs = Inr (g', sk', w')"
    and s: "unat (start g) \<le> 3"
    and i: "conservation g = 0 \<or> (idle_state w \<and> icsk_ca_state sk < TCP_CA_Recovery)"
  shows "gain w' = gain w" "state w' = state w" "unat (start g') = unat (start g) + 1"
    "conservation g' = conservation g" "idle_state w \<Longrightarrow> icsk_ca_state sk < TCP_CA_Recovery \<Longrightarrow> idle_state w'"
proof -
  from i have i': "conservation g = 0 \<or>
            (icsk_ca_state sk < TCP_CA_Recovery \<and>
             (ucast (prev_ca_state w) :: u8) < TCP_CA_Recovery \<and> \<not> packet_conservation w)"
    by (auto simp: idle_state_def)
  from cong_control_idle_gain [OF r i'] obtain w4 nx where
    s4: "state w4 = state w" "gain w4 = gain w"
    and w': "state w' = state (cong_control_gain (start g) w4 (ucast (minmax_get (bw w4))))"
      "gain w' = gain (cong_control_gain (start g) w4 (ucast (minmax_get (bw w4))))"
      "packet_conservation w' = packet_conservation w"
      "prev_ca_state w' = ucast (icsk_ca_state sk)"
    by blast
  from not_sless_small [OF s] have "cong_control_gain (start g) w4 b = w4" for b
    by (simp add: cong_control_gain_def)
  with w' s4 show "gain w' = gain w" "state w' = state w" by simp_all
  from cong_control_module [OF r] have g': "g' = g\<lparr>start := start g + 1\<rparr>" .
  then show "conservation g' = conservation g" by simp
  from s have "unat (start g) + unat (1 :: 32 word) < 2 ^ 32" by simp
  then have "unat (start g + 1) = unat (start g) + unat (1 :: 32 word)"
    by (rule unat_plus_small)
  with g' show "unat (start g') = unat (start g) + 1" by simp
  show "idle_state w'" if "idle_state w" "icsk_ca_state sk < TCP_CA_Recovery"
    using that w'(3,4) ucast_ca_state [of "icsk_ca_state sk"] by (simp add: idle_state_def)
qed

lemma cong_control_calls_skip:
  "\<not> k < n \<Longrightarrow> cong_control_calls n ((k, cb) # cs) = cong_control_calls n cs"
  by (cases cb) simp_all

lemma run_callback_warm_up:
  assumes r: "run_callback g w cb = Inr (g', w')"
    and s: "unat (start g) + cong_control_calls (Suc k) [(k, cb)] \<le> 4"
    and i: "conservation g = 0 \<or> (idle_state w \<and> idle_call cb)"
  shows "gain w' = gain w" "state w' = state w"
    "unat (start g') = unat (start g) + cong_control_calls (Suc k) [(k, cb)]"
    "conservation g' = conservation g" "idle_state w \<Longrightarrow> idle_call cb \<Longrightarrow> idle_state w'"
proof -
  have "gain w' = gain w \<and> state w' = state w \<and>
    unat (start g') = unat (start g) + cong_control_calls (Suc k) [(k, cb)] \<and>
    conservation g' = conservation g \<and> (idle_state w \<longrightarrow> idle_call cb \<longrightarrow> idle_state w')"
  proof (cases cb)
    case (Cong_control sk rs)
    with r obtain sk' where c: "tcp_caohejing_cong_control g sk w rs = Inr (g', sk', w')"
      by (auto split: sum.splits)
    from s Cong_control have s': "unat (start g) \<le> 3" by simp
    from i Cong_control have i': "conservation g = 0 \<or>
        (idle_state w \<and> icsk_ca_state sk < TCP_CA_Recovery)" by simp
    from cong_control_warm_up [OF c s' i'] Cong_control show ?thesis by simp
  next
    case (Ssthresh sk)
    with r show ?thesis by (auto simp: tcp_caohejing_ssthresh_def idle_state_def)
  next
    case Undo_cwnd
    with r show ?thesis by auto
  next
    case (Set_state sk st)
    with r show ?thesis by auto
  qed
  then show "gain w' = gain w" "state w' = state w"
    "unat (start g') = unat (start g) + cong_control_calls (Suc k) [(k, cb)]"
    "conservation g' = conservation g" "idle_state w \<Longrightarrow> idle_call cb \<Longrightarrow> idle_state w'"
    by blast+
qed

lemma run_calls_ConsE:
  assumes "run_calls g ws ((k, cb) # cs) = Inr (g', ws')" "k < length ws"
  obtains g1 w1 where
    "run_callback g (ws ! k) cb = Inr (g1, w1)"
    "run_calls g1 (ws[k := w1]) cs = Inr (g', ws')"
  using assms by (auto split: sum.splits)

lemma cong_control_calls_Cons:
  "k < n \<Longrightarrow> cong_control_calls n ((k, cb) # cs)
     = cong_control_calls (Suc k) [(k, cb)] + cong_control_calls n cs"
  by (cases cb) simp_all

lemma run_calls_warm_up:
  assumes "run_calls g ws cs = Inr (g', ws')"
    and "unat (start g) + cong_control_calls (length ws) cs \<le> 4"
    and "conservation g = 0 \<or> (list_all idle_state ws \<and> list_all (\<lambda>(c, cb). idle_call cb) cs)"
  shows "unat (start g') = unat (start g) + cong_control_calls (length ws) cs \<and>
         map gain ws' = map gain ws \<and> map state ws' = map state ws"
  using assms
proof (induction cs arbitrary: g ws)
  case Nil
  then show ?case by simp
next
  case (Cons a cs)
  obtain k cb where a: "a = (k, cb)" by (cases a)
  show ?case
  proof (cases "k < length ws")
    case False
    with a Cons.prems(1) have r: "run_calls g ws cs = Inr (g', ws')" by simp
    from False a have n: "cong_control_calls (length ws) (a # cs) = cong_control_calls (length ws) cs"
      by (simp add: cong_control_calls_skip)
    from Cons.prems(3) a have
      "conservation g = 0 \<or> (list_all idle_state ws \<and> list_all (\<lambda>(c, cb). idle_call cb) cs)"
      by auto
    from Cons.IH [OF r _ this] Cons.prems(2) n show ?thesis by simp
  next
    case True
    from Cons.prems(1) True obtain g1 w1 where
      s: "run_callback g (ws ! k) cb = Inr (g1, w1)" and
      r: "run_calls g1 (ws[k := w1]) cs = Inr (g', ws')"
      unfolding a by (rule run_calls_ConsE)
    have n: "cong_control_calls (length ws) (a # cs)
        = cong_control_calls (Suc k) [(k, cb)] + cong_control_calls (length ws) cs"
      unfolding a using True by (rule cong_control_calls_Cons)
    with Cons.prems(2) have b: "unat (start g) + cong_control_calls (Suc k) [(k, cb)] \<le> 4"
      by simp
    from Cons.prems(3) a True have
      i: "conservation g = 0 \<or> (idle_state (ws ! k) \<and> idle_call cb)"
      by (auto simp: list_all_length)
    note st = run_callback_warm_up [OF s b i]
    note kl = \<open>k < length ws\<close>
    from Cons.prems(2) n st(3) have
      b1: "unat (start g1) + cong_control_calls (length (ws[k := w1])) cs \<le> 4"
      by simp
    have i1: "conservation g1 = 0 \<or>
         (list_all idle_state (ws[k := w1]) \<and> list_all (\<lambda>(c, cb). idle_call cb) cs)"
    proof (cases "conservation g = 0")
      case True
      with st(4) show ?thesis by simp
    next
      case False
      with Cons.prems(3) a have l: "list_all idle_state ws" "idle_call cb"
        "list_all (\<lambda>(c, cb). idle_call cb) cs"
        by auto
      from l(1) kl have "idle_state (ws ! k)" by (simp add: list_all_length)
      from st(5) [OF this l(2)] l(1) have "list_all idle_state (ws[k := w1])"
        by (auto simp: list_all_length nth_list_update kl)
      with l(3) show ?thesis by simp
    qed
    from Cons.IH [OF r b1 i1] have
      h: "unat (start g') = unat (start g1) + cong_control_calls (length ws) cs"
      "map gain ws' = map gain (ws[k := w1])" "map state ws' = map state (ws[k := w1])"
      by simp_all
    have "map gain (ws[k := w1]) = map gain ws" "map state (ws[k := w1]) = map state ws"
      using st(1,2) kl by (simp_all add: map_update list_update_same_conv)
    with h n st(3) show ?thesis by simp
  qed
qed

subsection \<open>When a call returns\<close>

lemma cong_control_cwnd_returns:
  "(\<exists>c. cong_control_cwnd sk w b = Inr c) \<longleftrightarrow> mss_cache sk \<noteq> 0"
  by (auto simp: cong_control_cwnd_def caohejing_tso_segs_goal_def Let_def split: sum.splits)

lemma cong_control_estimate_returns:
  "(\<exists>r. cong_control_estimate sk w rs = Inr r) \<longleftrightarrow> (ucast (interval_us rs) :: u32) \<noteq> 0"
  by (auto simp: cong_control_estimate_def cong_control_bw_def do_div_def Let_def
      split: sum.splits)

lemma cong_control_returns:
  "(\<exists>r. tcp_caohejing_cong_control g sk w rs = Inr r) \<longleftrightarrow>
     (ucast (interval_us rs) :: u32) \<noteq> 0 \<and> mss_cache sk \<noteq> 0"
proof
  assume "\<exists>r. tcp_caohejing_cong_control g sk w rs = Inr r"
  then obtain g' sk' w' where r: "tcp_caohejing_cong_control g sk w rs = Inr (g', sk', w')"
    by (metis prod_cases3)
  then obtain w4 nx c segs where
    "cong_control_estimate sk w rs = Inr (w4, nx)" "caohejing_tso_segs_goal sk = Inr segs"
    by (rule cong_control_line_199)
  then show "(ucast (interval_us rs) :: u32) \<noteq> 0 \<and> mss_cache sk \<noteq> 0"
    using cong_control_estimate_returns [of sk w rs]
    by (auto simp: caohejing_tso_segs_goal_def Let_def split: if_splits)
next
  assume a: "(ucast (interval_us rs) :: u32) \<noteq> 0 \<and> mss_cache sk \<noteq> 0"
  then obtain w4 nx where e: "cong_control_estimate sk w rs = Inr (w4, nx)"
    using cong_control_estimate_returns [of sk w rs] by auto
  from a obtain c where
    c: "cong_control_cwnd sk (cong_control_gain (start g) w4 (ucast (minmax_get (bw w4))))
          (ucast (minmax_get (bw w4))) = Inr c"
    using cong_control_cwnd_returns by blast
  from e c show "\<exists>r. tcp_caohejing_cong_control g sk w rs = Inr r"
    by (simp add: tcp_caohejing_cong_control_def cong_control_body_def Let_def
          split: prod.splits)
qed


subsection \<open>The counter over a sequence of calls\<close>

lemma run_callback_start:
  assumes "run_callback g w cb = Inr (g', w')"
  shows "start g' = start g + of_nat (cong_control_calls (Suc k) [(k, cb)])"
proof (cases cb)
  case (Cong_control sk rs)
  with assms obtain sk' where "tcp_caohejing_cong_control g sk w rs = Inr (g', sk', w')"
    by (auto split: sum.splits)
  from cong_control_module [OF this] Cong_control show ?thesis by simp
next
  case (Ssthresh sk)
  with assms show ?thesis by auto
next
  case Undo_cwnd
  with assms show ?thesis by auto
next
  case (Set_state sk st)
  with assms show ?thesis by auto
qed

lemma run_calls_start:
  assumes "run_calls g ws cs = Inr (g', ws')"
  shows "start g' = start g + of_nat (cong_control_calls (length ws) cs)"
  using assms
proof (induction cs arbitrary: g ws)
  case Nil
  then show ?case by simp
next
  case (Cons a cs)
  obtain k cb where a: "a = (k, cb)" by (cases a)
  show ?case
  proof (cases "k < length ws")
    case False
    with a Cons.prems have r: "run_calls g ws cs = Inr (g', ws')" by simp
    from False a have "cong_control_calls (length ws) (a # cs) = cong_control_calls (length ws) cs"
      by (simp add: cong_control_calls_skip)
    with Cons.IH [OF r] show ?thesis by simp
  next
    case True
    from Cons.prems True obtain g1 w1 where
      s: "run_callback g (ws ! k) cb = Inr (g1, w1)" and
      r: "run_calls g1 (ws[k := w1]) cs = Inr (g', ws')"
      unfolding a by (rule run_calls_ConsE)
    have n: "cong_control_calls (length ws) (a # cs)
        = cong_control_calls (Suc k) [(k, cb)] + cong_control_calls (length ws) cs"
      unfolding a using True by (rule cong_control_calls_Cons)
    from Cons.IH [OF r] have
      "start g' = start g1 + of_nat (cong_control_calls (length ws) cs)"
      by simp
    with run_callback_start [OF s, of k] n show ?thesis by simp
  qed
qed

lemma unat_of_nat_small:
  assumes "n < 2 ^ 31"
  shows "unat (of_nat n :: 32 word) = n"
proof -
  from assms have "n < 2 ^ LENGTH(32)" by simp
  then show ?thesis by (simp add: unat_of_nat take_bit_nat_eq_self)
qed

lemma sless_3_iff:
  fixes x :: "32 word"
  assumes "unat x < 2 ^ 31"
  shows "3 <s x \<longleftrightarrow> 4 \<le> unat x"
proof -
  from assms have "int (unat x) < int (2 ^ 31)" by (simp only: of_nat_less_iff)
  then have "uint x < 2 ^ 31" by simp
  then have hi: "uint x < 2 ^ (LENGTH(32) - 1)" by simp
  have lo: "- (2 ^ (LENGTH(32) - 1)) \<le> uint x" by (rule order_trans [where y = 0]) simp_all
  have "sint x = signed_take_bit (LENGTH(32) - 1) (uint x)"
    by (simp add: sint_uint)
  also have "\<dots> = uint x" using lo hi by (rule signed_take_bit_int_eq_self)
  finally have s: "sint x = int (unat x)" by simp
  have "3 <s x \<longleftrightarrow> sint (3 :: 32 word) < sint x" by (rule word_sless_alt)
  also have "sint (3 :: 32 word) = 3" by simp
  finally have "3 <s x \<longleftrightarrow> 3 < sint x" .
  also have "\<dots> \<longleftrightarrow> 3 < int (unat x)" by (simp only: s)
  also have "\<dots> \<longleftrightarrow> 4 \<le> unat x" by linarith
  finally show ?thesis .
qed


lemma run_callback_gain_rule:
  assumes r: "run_callback g w (Cong_control sk rs) = Inr (g', w')"
    and i: "conservation g = 0 \<or> (idle_state w \<and> icsk_ca_state sk < TCP_CA_Recovery)"
  obtains w4 nx where
    "cong_control_estimate sk w rs = Inr (w4, nx)"
    "state w4 = state w" "gain w4 = gain w"
    "3 <s start g \<longrightarrow> state w' = state (gain_switch w4 (ucast (minmax_get (bw w4))))"
    "3 <s start g \<longrightarrow> gain w' = gain (gain_switch w4 (ucast (minmax_get (bw w4))))"
    "\<not> 3 <s start g \<longrightarrow> state w' = state w"
    "\<not> 3 <s start g \<longrightarrow> gain w' = gain w"
proof -
  from r obtain sk' where c: "tcp_caohejing_cong_control g sk w rs = Inr (g', sk', w')"
    by (auto split: sum.splits)
  from i have i': "conservation g = 0 \<or>
            (icsk_ca_state sk < TCP_CA_Recovery \<and>
             (ucast (prev_ca_state w) :: u8) < TCP_CA_Recovery \<and> \<not> packet_conservation w)"
    by (auto simp: idle_state_def)
  from cong_control_idle_gain [OF c i'] obtain w4 nx where
    e: "cong_control_estimate sk w rs = Inr (w4, nx)"
    and s4: "state w4 = state w" "gain w4 = gain w"
    and w': "state w' = state (cong_control_gain (start g) w4 (ucast (minmax_get (bw w4))))"
      "gain w' = gain (cong_control_gain (start g) w4 (ucast (minmax_get (bw w4))))"
    by blast
  show ?thesis
    by (rule that [OF e s4]) (simp_all add: w' s4 cong_control_gain_def)
qed

section \<open>The minimum RTT\<close>

text \<open>Claim C7. Over any sequence of callbacks after init, on any connection, \<open>min_rtt_us\<close>
  never increases. One \<^verbatim>\<open>cong_control\<close> call replaces it by the sample's \<open>rtt_us\<close>
  exactly when that is positive and at most the current \<open>min_rtt_us\<close>; any other sample,
  in particular one with \<open>rtt_us\<close> zero or negative, leaves it as it was.\<close>

theorem min_rtt_us_non_increasing:
  "(run_calls g ws cs = Inr (g', ws') \<and> c < length ws \<longrightarrow>
      min_rtt_us (ws' ! c) \<le> min_rtt_us (ws ! c)) \<and>
   (tcp_caohejing_cong_control g0 sk w rs = Inr (g1, sk1, w1) \<longrightarrow>
      (if 0 < sint (rtt_us rs) \<and> sint (rtt_us rs) \<le> uint (min_rtt_us w)
       then uint (min_rtt_us w1) = sint (rtt_us rs)
       else min_rtt_us w1 = min_rtt_us w))"
proof (intro conjI impI)
  assume "run_calls g ws cs = Inr (g', ws') \<and> c < length ws"
  then show "min_rtt_us (ws' ! c) \<le> min_rtt_us (ws ! c)" by (blast intro: run_calls_min_rtt)
next
  assume "tcp_caohejing_cong_control g0 sk w rs = Inr (g1, sk1, w1)"
  then have "min_rtt_us w1 = min_rtt_us (cong_control_min_rtt rs w)"
    by (rule cong_control_min_rtt_us)
  moreover have "uint (ucast (rtt_us rs) :: 32 word) = sint (rtt_us rs)"
    if "0 < sint (rtt_us rs)" "sint (rtt_us rs) \<le> uint (min_rtt_us w)"
    using that by (intro pos_signed_le_ucast(1) [where m = "min_rtt_us w"])
      (simp_all add: word_sless_alt word_sle_eq sint_ucast_32_64)
  ultimately show "if 0 < sint (rtt_us rs) \<and> sint (rtt_us rs) \<le> uint (min_rtt_us w)
       then uint (min_rtt_us w1) = sint (rtt_us rs)
       else min_rtt_us w1 = min_rtt_us w"
    by (auto simp: cong_control_min_rtt_def word_sless_alt word_sle_eq sint_ucast_32_64)
qed

theorem min_rtt_us_non_increasing_witness:
  "run_calls \<lparr>conservation = 1, start = 0\<rparr> [tcp_caohejing_init zero_caohejing]
     [(0, Cong_control ex_sock ex_sample),
      (0, Cong_control ex_sock (ex_sample\<lparr>rtt_us := 250\<rparr>)),
      (0, Ssthresh ex_sock),
      (0, Cong_control ex_sock (ex_sample\<lparr>rtt_us := 70\<rparr>))]
   = Inr (\<lparr>conservation = 1, start = 3\<rparr>, [ex_w_rtt70]) \<and>
   min_rtt_us ex_w_rtt70 \<le> min_rtt_us (tcp_caohejing_init zero_caohejing) \<and>
   tcp_caohejing_cong_control \<lparr>conservation = 1, start = 3\<rparr> ex_sock ex_w_rtt70
     (ex_sample\<lparr>rtt_us := 0\<rparr>)
   = Inr (\<lparr>conservation = 1, start = 4\<rparr>,
          ex_sock\<lparr>snd_cwnd := 74, sk_pacing_rate := 1806750000\<rparr>,
          ex_w_rtt70\<lparr>rtt_cnt := 3\<rparr>) \<and>
   min_rtt_us (ex_w_rtt70\<lparr>rtt_cnt := 3\<rparr>) = min_rtt_us ex_w_rtt70"
proof -
  have r: "run_calls \<lparr>conservation = 1, start = 0\<rparr> [tcp_caohejing_init zero_caohejing]
     [(0, Cong_control ex_sock ex_sample),
      (0, Cong_control ex_sock (ex_sample\<lparr>rtt_us := 250\<rparr>)),
      (0, Ssthresh ex_sock),
      (0, Cong_control ex_sock (ex_sample\<lparr>rtt_us := 70\<rparr>))]
   = Inr (\<lparr>conservation = 1, start = 3\<rparr>, [ex_w_rtt70])"
    by code_simp
  have s: "tcp_caohejing_cong_control \<lparr>conservation = 1, start = 3\<rparr> ex_sock ex_w_rtt70
     (ex_sample\<lparr>rtt_us := 0\<rparr>)
   = Inr (\<lparr>conservation = 1, start = 4\<rparr>,
          ex_sock\<lparr>snd_cwnd := 74, sk_pacing_rate := 1806750000\<rparr>,
          ex_w_rtt70\<lparr>rtt_cnt := 3\<rparr>)"
    by code_simp
  have z: "\<not> 0 < sint (rtt_us (ex_sample\<lparr>rtt_us := 0\<rparr>))" by simp
  note t = min_rtt_us_non_increasing [where g = "\<lparr>conservation = 1, start = 0\<rparr>"
      and ws = "[tcp_caohejing_init zero_caohejing]"
      and cs = "[(0, Cong_control ex_sock ex_sample),
                 (0, Cong_control ex_sock (ex_sample\<lparr>rtt_us := 250\<rparr>)),
                 (0, Ssthresh ex_sock),
                 (0, Cong_control ex_sock (ex_sample\<lparr>rtt_us := 70\<rparr>))]"
      and g' = "\<lparr>conservation = 1, start = 3\<rparr>" and ws' = "[ex_w_rtt70]" and c = 0
      and ?g0.0 = "\<lparr>conservation = 1, start = 3\<rparr>" and sk = ex_sock and w = ex_w_rtt70
      and rs = "ex_sample\<lparr>rtt_us := 0\<rparr>"
      and ?g1.0 = "\<lparr>conservation = 1, start = 4\<rparr>"
      and ?sk1.0 = "ex_sock\<lparr>snd_cwnd := 74, sk_pacing_rate := 1806750000\<rparr>"
      and ?w1.0 = "ex_w_rtt70\<lparr>rtt_cnt := 3\<rparr>"]
  have l: "(0::nat) < length [tcp_caohejing_init zero_caohejing]" by simp
  from t r l have "min_rtt_us ([ex_w_rtt70] ! 0) \<le> min_rtt_us ([tcp_caohejing_init zero_caohejing] ! 0)"
    by blast
  then have a: "min_rtt_us ex_w_rtt70 \<le> min_rtt_us (tcp_caohejing_init zero_caohejing)"
    by simp
  from t s z have b: "min_rtt_us (ex_w_rtt70\<lparr>rtt_cnt := 3\<rparr>) = min_rtt_us ex_w_rtt70"
    by presburger
  from r s a b show ?thesis by blast
qed

section \<open>Entering and leaving recovery\<close>

text \<open>Claim C8. With the conservative mode enabled, a call whose congestion state is Recovery
  while the previous call's was not sets the connection's window to packets in flight plus
  the sample's acked+SACKed count (the value \<^verbatim>\<open>tp->snd_cwnd\<close> holds when the label
  \<^verbatim>\<open>done\<close> is reached; the call then returns it capped by \<^verbatim>\<open>snd_cwnd_clamp\<close>, as
  it does every window), restarts the round marker from the current delivered counter and
  turns packet conservation on.\<close>

theorem recovery_entry_sets_cwnd:
  assumes "tcp_caohejing_cong_control g sk w rs = Inr (g', sk', w')"
    and "conservation g \<noteq> 0"
    and "icsk_ca_state sk = TCP_CA_Recovery"
    and "(ucast (prev_ca_state w) :: u8) \<noteq> TCP_CA_Recovery"
  shows "\<exists>sk2 w2 b.
           cong_control_body g sk w rs = Inr (g', sk2, w2, b) \<and>
           snd_cwnd sk2 = packets_in_flight sk + acked_sacked rs \<and>
           snd_cwnd sk' = min (packets_in_flight sk + acked_sacked rs) (snd_cwnd_clamp sk) \<and>
           next_rtt_delivered w' = tp_delivered sk \<and>
           packet_conservation w'"
proof -
  from assms(1) obtain sk2 w7 bwv where
    b: "cong_control_body g sk w rs = Inr (g', sk2, w7, bwv)"
    and d: "cong_control_done sk2 w7 bwv = (sk', w')"
    by (rule cong_controlE)
  from b obtain w4 nx c where
    r1: "conservation g \<noteq> 0 \<longrightarrow>
       cong_control_recovery (sk\<lparr>snd_cwnd := c\<rparr>)
         (cong_control_reset nx (cong_control_gain (start g) w4 bwv)) rs
         (ucast (prev_ca_state w)) (icsk_ca_state sk) (snd_cwnd sk) = (sk2, w7)"
    by (rule cong_control_bodyE)
  from r1 assms(2-4) have
    "sk2 = sk\<lparr>snd_cwnd := packets_in_flight sk + acked_sacked rs\<rparr>"
    "w7 = (cong_control_reset nx (cong_control_gain (start g) w4 bwv))
            \<lparr>next_rtt_delivered := tp_delivered sk, packet_conservation := True,
             state := DOWN, gain := CAL_UNIT * 3 div 4\<rparr>"
    by (simp_all add: recovery_entry_eq)
  with d have
    "snd_cwnd sk2 = packets_in_flight sk + acked_sacked rs"
    "snd_cwnd sk' = min (packets_in_flight sk + acked_sacked rs) (snd_cwnd_clamp sk)"
    "next_rtt_delivered w' = tp_delivered sk" "packet_conservation w'"
    by (auto elim!: cong_control_doneE)
  with b show ?thesis by blast
qed

theorem recovery_entry_sets_cwnd_witness:
  "tcp_caohejing_cong_control \<lparr>conservation = 1, start = 7\<rparr> ex_sock_recovery ex_w_prior20 ex_sample
     = Inr (\<lparr>conservation = 1, start = 8\<rparr>,
            ex_sock_recovery\<lparr>snd_cwnd := 12, sk_pacing_rate := 1084050000\<rparr>,
            ex_w_recovery) \<and>
   conservation \<lparr>conservation = 1, start = 7\<rparr> \<noteq> 0 \<and>
   icsk_ca_state ex_sock_recovery = TCP_CA_Recovery \<and>
   (ucast (prev_ca_state ex_w_prior20) :: u8) \<noteq> TCP_CA_Recovery \<and>
   packets_in_flight ex_sock_recovery = 10 \<and> acked_sacked ex_sample = 2 \<and>
   snd_cwnd (ex_sock_recovery\<lparr>snd_cwnd := 12, sk_pacing_rate := 1084050000\<rparr>) = 12 \<and>
   next_rtt_delivered ex_w_recovery = tp_delivered ex_sock_recovery \<and>
   packet_conservation ex_w_recovery"
proof -
  have r: "tcp_caohejing_cong_control \<lparr>conservation = 1, start = 7\<rparr> ex_sock_recovery ex_w_prior20
             ex_sample
     = Inr (\<lparr>conservation = 1, start = 8\<rparr>,
            ex_sock_recovery\<lparr>snd_cwnd := 12, sk_pacing_rate := 1084050000\<rparr>,
            ex_w_recovery)"
    by code_simp
  have h: "conservation \<lparr>conservation = 1, start = 7\<rparr> \<noteq> 0"
    "icsk_ca_state ex_sock_recovery = TCP_CA_Recovery"
    "(ucast (prev_ca_state ex_w_prior20) :: u8) \<noteq> TCP_CA_Recovery"
    "packets_in_flight ex_sock_recovery = 10" "acked_sacked ex_sample = 2"
    "snd_cwnd_clamp ex_sock_recovery = 0xFFFFFFFF"
    by (simp_all add: ex_sock_recovery_def ex_sock_def ex_w_prior20_def ex_sample_def
          tcp_caohejing_init_def zero_caohejing_def TCP_CA_Recovery_def TCP_CA_Open_def Let_def)
  from recovery_entry_sets_cwnd [OF r h(1-3)] have
    "snd_cwnd (ex_sock_recovery\<lparr>snd_cwnd := 12, sk_pacing_rate := 1084050000\<rparr>) = 12"
    "next_rtt_delivered ex_w_recovery = tp_delivered ex_sock_recovery"
    "packet_conservation ex_w_recovery"
    by (auto simp: h(4-6))
  with r h show ?thesis by blast
qed

text \<open>Claim C9. With the conservative mode enabled, a call whose previous congestion state was
  Recovery or worse and whose current state is better than Recovery sets the connection's
  window to the larger of \<open>prior_cwnd\<close> and packets in flight plus the sample's acked+SACKed
  count (the value \<^verbatim>\<open>tp->snd_cwnd\<close> holds when the label \<^verbatim>\<open>done\<close> is reached; the
  call returns it capped by \<^verbatim>\<open>snd_cwnd_clamp\<close>), forces the phase to \<open>UP\<close> with gain
  320 and clears packet conservation.\<close>

theorem recovery_exit_restores_cwnd:
  assumes "tcp_caohejing_cong_control g sk w rs = Inr (g', sk', w')"
    and "conservation g \<noteq> 0"
    and "(ucast (prev_ca_state w) :: u8) \<ge> TCP_CA_Recovery"
    and "icsk_ca_state sk < TCP_CA_Recovery"
  shows "\<exists>sk2 w2 b.
           cong_control_body g sk w rs = Inr (g', sk2, w2, b) \<and>
           snd_cwnd sk2 = max (prior_cwnd w) (packets_in_flight sk + acked_sacked rs) \<and>
           snd_cwnd sk' = min (max (prior_cwnd w) (packets_in_flight sk + acked_sacked rs))
                              (snd_cwnd_clamp sk) \<and>
           state w' = UP \<and> gain w' = 320 \<and> \<not> packet_conservation w'"
proof -
  from assms(1) obtain sk2 w7 bwv where
    b: "cong_control_body g sk w rs = Inr (g', sk2, w7, bwv)"
    and d: "cong_control_done sk2 w7 bwv = (sk', w')"
    by (rule cong_controlE)
  from b obtain w4 nx c where
    e: "cong_control_estimate sk w rs = Inr (w4, nx)"
    and r1: "conservation g \<noteq> 0 \<longrightarrow>
       cong_control_recovery (sk\<lparr>snd_cwnd := c\<rparr>)
         (cong_control_reset nx (cong_control_gain (start g) w4 bwv)) rs
         (ucast (prev_ca_state w)) (icsk_ca_state sk) (snd_cwnd sk) = (sk2, w7)"
    by (rule cong_control_bodyE)
  define w6 where "w6 = cong_control_reset nx (cong_control_gain (start g) w4 bwv)"
  have p: "prior_cwnd w6 = prior_cwnd w"
    using estimate_prior_cwnd [OF e]
    by (simp add: w6_def reset_prior_cwnd gain_prior_cwnd)
  from r1 assms(2-4) have
    "sk2 = sk\<lparr>snd_cwnd := max (prior_cwnd w6) (packets_in_flight sk + acked_sacked rs)\<rparr>"
    "w7 = w6\<lparr>state := UP, gain := CAL_UNIT * 5 div 4, packet_conservation := False\<rparr>"
    by (simp_all add: recovery_exit_eq w6_def)
  with d p have
    "snd_cwnd sk2 = max (prior_cwnd w) (packets_in_flight sk + acked_sacked rs)"
    "snd_cwnd sk' = min (max (prior_cwnd w) (packets_in_flight sk + acked_sacked rs))
                        (snd_cwnd_clamp sk)"
    "state w' = UP" "gain w' = 320" "\<not> packet_conservation w'"
    by (auto elim!: cong_control_doneE simp: gain_values)
  with b show ?thesis by blast
qed

theorem recovery_exit_restores_cwnd_witness:
  "tcp_caohejing_cong_control \<lparr>conservation = 1, start = 8\<rparr> (ex_sock\<lparr>packets_in_flight := 5\<rparr>)
     ex_w_recovery (ex_sample\<lparr>acked_sacked := 1\<rparr>)
     = Inr (\<lparr>conservation = 1, start = 9\<rparr>,
            ex_sock\<lparr>packets_in_flight := 5, snd_cwnd := 20, sk_pacing_rate := 1806750000\<rparr>,
            ex_w_recovered) \<and>
   conservation \<lparr>conservation = 1, start = 8\<rparr> \<noteq> 0 \<and>
   (ucast (prev_ca_state ex_w_recovery) :: u8) \<ge> TCP_CA_Recovery \<and>
   icsk_ca_state (ex_sock\<lparr>packets_in_flight := 5\<rparr>) < TCP_CA_Recovery \<and>
   prior_cwnd ex_w_recovery = 20 \<and>
   snd_cwnd (ex_sock\<lparr>packets_in_flight := 5, snd_cwnd := 20, sk_pacing_rate := 1806750000\<rparr>)
     = 20 \<and>
   state ex_w_recovered = UP \<and> gain ex_w_recovered = 320 \<and>
   \<not> packet_conservation ex_w_recovered"
proof -
  have r: "tcp_caohejing_cong_control \<lparr>conservation = 1, start = 8\<rparr>
             (ex_sock\<lparr>packets_in_flight := 5\<rparr>) ex_w_recovery (ex_sample\<lparr>acked_sacked := 1\<rparr>)
     = Inr (\<lparr>conservation = 1, start = 9\<rparr>,
            ex_sock\<lparr>packets_in_flight := 5, snd_cwnd := 20, sk_pacing_rate := 1806750000\<rparr>,
            ex_w_recovered)"
    by code_simp
  have h: "conservation \<lparr>conservation = 1, start = 8\<rparr> \<noteq> 0"
    "(ucast (prev_ca_state ex_w_recovery) :: u8) \<ge> TCP_CA_Recovery"
    "icsk_ca_state (ex_sock\<lparr>packets_in_flight := 5\<rparr>) < TCP_CA_Recovery"
    "prior_cwnd ex_w_recovery = 20"
    by (simp_all add: ex_sock_def ex_w_recovery_def ex_w_prior20_def TCP_CA_Recovery_def)
  from recovery_exit_restores_cwnd [OF r h(1-3)] have
    "state ex_w_recovered = UP" "gain ex_w_recovered = 320"
    "\<not> packet_conservation ex_w_recovered"
    by auto
  moreover have
    "snd_cwnd (ex_sock\<lparr>packets_in_flight := 5, snd_cwnd := 20, sk_pacing_rate := 1806750000\<rparr>)
       = 20"
    by simp
  ultimately show ?thesis using r h by blast
qed

section \<open>The pacing rate\<close>

text \<open>Claim C10. For every bandwidth, gain and segment size the pacing rate is
  \<open>((bw * mss * gain) >> 8) * (USEC_PER_SEC * 99 / 100) >> 24\<close>, capped by the socket's
  maximum pacing rate: as an identity of the 64-bit unsigned arithmetic the code computes in,
  with the 1% factor the exact integer 990000; as an identity of natural numbers whenever
  the gain is not negative as an \<^verbatim>\<open>int\<close> and the product before the last shift fits 64
  bits; and this is the rate every successful call stores, computed from the filter's
  maximum when the gain switch is reached and the gain the call ends with.\<close>

theorem pacing_rate_formula:
  "caohejing_bw_to_pacing_rate sk b gn =
     min (drop_bit 24 (drop_bit 8 (ucast b * ucast (mss_cache sk) * scast gn)
                       * (USEC_PER_SEC * 99 div 100)))
         (sk_max_pacing_rate sk) \<and>
   (0 \<le> sint gn \<and> unat b * unat (mss_cache sk) * unat gn div 2 ^ 8 * 990000 < 2 ^ 64 \<longrightarrow>
      unat (caohejing_bw_to_pacing_rate sk b gn) =
        min (unat b * unat (mss_cache sk) * unat gn div 2 ^ 8 * (1000000 * 99 div 100) div 2 ^ 24)
            (unat (sk_max_pacing_rate sk))) \<and>
   (tcp_caohejing_cong_control g sk w rs = Inr (g', sk', w') \<longrightarrow>
      (\<exists>w4 nx. cong_control_estimate sk w rs = Inr (w4, nx) \<and>
         sk_pacing_rate sk' = caohejing_bw_to_pacing_rate sk (minmax_get (bw w4)) (gain w')))"
proof (intro conjI impI)
  show "caohejing_bw_to_pacing_rate sk b gn =
     min (drop_bit 24 (drop_bit 8 (ucast b * ucast (mss_cache sk) * scast gn)
                       * (USEC_PER_SEC * 99 div 100)))
         (sk_max_pacing_rate sk)"
    by (simp add: caohejing_bw_to_pacing_rate_def caohejing_rate_bytes_per_sec_def Let_def
          CAL_SCALE_def BW_SCALE_def USEC_PER_SEC_def)
next
  assume "0 \<le> sint gn \<and> unat b * unat (mss_cache sk) * unat gn div 2 ^ 8 * 990000 < 2 ^ 64"
  then have "unat (caohejing_rate_bytes_per_sec sk (ucast b) gn)
         = unat b * unat (mss_cache sk) * unat gn div 2 ^ 8 * 990000 div 2 ^ 24"
    by (intro unat_rate_bytes_per_sec) simp_all
  then show "unat (caohejing_bw_to_pacing_rate sk b gn) =
        min (unat b * unat (mss_cache sk) * unat gn div 2 ^ 8 * (1000000 * 99 div 100) div 2 ^ 24)
            (unat (sk_max_pacing_rate sk))"
    by (simp add: caohejing_bw_to_pacing_rate_def Let_def unat_min64)
next
  assume "tcp_caohejing_cong_control g sk w rs = Inr (g', sk', w')"
  then show "\<exists>w4 nx. cong_control_estimate sk w rs = Inr (w4, nx) \<and>
         sk_pacing_rate sk' = caohejing_bw_to_pacing_rate sk (minmax_get (bw w4)) (gain w')"
    by (rule cong_control_pacing_rate)
qed

theorem pacing_rate_formula_witness:
  "0 \<le> sint (320 :: u32) \<and>
   unat (1000 :: u32) * unat (mss_cache ex_sock) * unat (320 :: u32) div 2 ^ 8 * 990000
     < (2 :: nat) ^ 64 \<and>
   mss_cache ex_sock = 1460 \<and>
   unat (caohejing_bw_to_pacing_rate ex_sock 1000 320) = 107690 \<and>
   tcp_caohejing_cong_control \<lparr>conservation = 1, start = 0\<rparr> ex_sock
       (tcp_caohejing_init zero_caohejing) ex_sample
     = Inr (\<lparr>conservation = 1, start = 1\<rparr>,
            ex_sock\<lparr>snd_cwnd := 104, sk_pacing_rate := 1806750000\<rparr>, ex_w_first) \<and>
   sk_pacing_rate (ex_sock\<lparr>snd_cwnd := 104, sk_pacing_rate := 1806750000\<rparr>)
     = caohejing_bw_to_pacing_rate ex_sock 16777216 (gain ex_w_first)"
proof -
  have h: "0 \<le> sint (320 :: u32)"
    "unat (1000 :: u32) * unat (mss_cache ex_sock) * unat (320 :: u32) div 2 ^ 8 * 990000
       < (2 :: nat) ^ 64"
    "mss_cache ex_sock = 1460" "unat (sk_max_pacing_rate ex_sock) = 2 ^ 64 - 1"
    by (simp_all add: ex_sock_def)
  have r: "tcp_caohejing_cong_control \<lparr>conservation = 1, start = 0\<rparr> ex_sock
       (tcp_caohejing_init zero_caohejing) ex_sample
     = Inr (\<lparr>conservation = 1, start = 1\<rparr>,
            ex_sock\<lparr>snd_cwnd := 104, sk_pacing_rate := 1806750000\<rparr>, ex_w_first)"
    by code_simp
  have e: "cong_control_estimate ex_sock (tcp_caohejing_init zero_caohejing) ex_sample
     = Inr (ex_w_first_est, True)"
    by code_simp
  note t = pacing_rate_formula [where sk = ex_sock and b = 1000 and gn = 320
      and g = "\<lparr>conservation = 1, start = 0\<rparr>" and w = "tcp_caohejing_init zero_caohejing"
      and rs = ex_sample and g' = "\<lparr>conservation = 1, start = 1\<rparr>"
      and sk' = "ex_sock\<lparr>snd_cwnd := 104, sk_pacing_rate := 1806750000\<rparr>" and w' = ex_w_first]
  from t h(1,2) have
    "unat (caohejing_bw_to_pacing_rate ex_sock 1000 320) =
        min (unat (1000 :: u32) * unat (mss_cache ex_sock) * unat (320 :: u32) div 2 ^ 8
               * (1000000 * 99 div 100) div 2 ^ 24)
            (unat (sk_max_pacing_rate ex_sock))"
    by blast
  then have a: "unat (caohejing_bw_to_pacing_rate ex_sock 1000 320) = 107690"
    by (simp add: h(3,4))
  from t r obtain w4 nx where
    "cong_control_estimate ex_sock (tcp_caohejing_init zero_caohejing) ex_sample = Inr (w4, nx)"
    "sk_pacing_rate (ex_sock\<lparr>snd_cwnd := 104, sk_pacing_rate := 1806750000\<rparr>)
       = caohejing_bw_to_pacing_rate ex_sock (minmax_get (bw w4)) (gain ex_w_first)"
    by blast
  with e have b: "sk_pacing_rate (ex_sock\<lparr>snd_cwnd := 104, sk_pacing_rate := 1806750000\<rparr>)
       = caohejing_bw_to_pacing_rate ex_sock 16777216 (gain ex_w_first)"
    by (simp add: minmax_get_def ex_w_first_est_def)
  from h(1-3) a r b show ?thesis by blast
qed

section \<open>The congestion window\<close>

text \<open>Claim C1, as amended. The window that a call writes at line 199 is
  \<open>max(2, ceil(bdp / BW_UNIT))\<close> plus 3 times the TSO-segments goal, rounded up to an even
  number, where \<open>bdp\<close> is the filter's maximum when the gain switch is reached times the
  updated \<open>min_rtt_us\<close>: the claim's formula with the fixed gain \<open>CAL_UNIT = 256\<close> in
  place of the current gain. This holds whenever that number fits 32 bits. It is the
  window the call returns, capped by \<^verbatim>\<open>snd_cwnd_clamp\<close>, whenever the recovery handling
  is idle.\<close>

theorem base_cwnd_unit_gain:
  assumes "tcp_caohejing_cong_control g sk w rs = Inr (g', sk', w')"
  shows "\<exists>w4 nx segs c.
           cong_control_estimate sk w rs = Inr (w4, nx) \<and>
           caohejing_tso_segs_goal sk = Inr segs \<and>
           cong_control_cwnd sk (cong_control_gain (start g) w4 (ucast (minmax_get (bw w4))))
             (ucast (minmax_get (bw w4))) = Inr c \<and>
           (spec_base_cwnd (unat (minmax_get (bw w4))) (unat (min_rtt_us w4)) 256 (unat segs)
              < 2 ^ 32 \<longrightarrow>
            unat c =
              spec_base_cwnd (unat (minmax_get (bw w4))) (unat (min_rtt_us w4)) 256 (unat segs)) \<and>
           (conservation g = 0 \<or>
            (icsk_ca_state sk < TCP_CA_Recovery \<and>
             (ucast (prev_ca_state w) :: u8) < TCP_CA_Recovery \<and> \<not> packet_conservation w) \<longrightarrow>
            snd_cwnd sk' = min c (snd_cwnd_clamp sk))"
proof -
  from assms obtain w4 nx c segs where
    e: "cong_control_estimate sk w rs = Inr (w4, nx)"
    and s: "caohejing_tso_segs_goal sk = Inr segs"
    and c: "cong_control_cwnd sk (cong_control_gain (start g) w4 (ucast (minmax_get (bw w4))))
       (ucast (minmax_get (bw w4))) = Inr c"
    by (rule cong_control_line_199)
  have "unat c =
      spec_base_cwnd (unat (minmax_get (bw w4))) (unat (min_rtt_us w4)) 256 (unat segs)"
    if "spec_base_cwnd (unat (minmax_get (bw w4))) (unat (min_rtt_us w4)) 256 (unat segs)
          < 2 ^ 32"
    using cong_control_cwnd_spec [OF c s] that by (simp add: gain_min_rtt)
  moreover have "snd_cwnd sk' = min c (snd_cwnd_clamp sk)"
    if "conservation g = 0 \<or>
            (icsk_ca_state sk < TCP_CA_Recovery \<and>
             (ucast (prev_ca_state w) :: u8) < TCP_CA_Recovery \<and> \<not> packet_conservation w)"
    using cong_control_idle [OF assms that] e c by (metis Inr_inject prod.inject)
  ultimately show ?thesis using e s c by blast
qed

theorem base_cwnd_unit_gain_witness:
  "tcp_caohejing_cong_control \<lparr>conservation = 1, start = 0\<rparr> ex_sock
       (tcp_caohejing_init zero_caohejing) ex_sample
     = Inr (\<lparr>conservation = 1, start = 1\<rparr>,
            ex_sock\<lparr>snd_cwnd := 104, sk_pacing_rate := 1806750000\<rparr>, ex_w_first) \<and>
   cong_control_estimate ex_sock (tcp_caohejing_init zero_caohejing) ex_sample
     = Inr (ex_w_first_est, True) \<and>
   caohejing_tso_segs_goal ex_sock = Inr 1 \<and>
   spec_base_cwnd (unat (minmax_get (bw ex_w_first_est))) (unat (min_rtt_us ex_w_first_est)) 256
     (unat (1 :: u32)) = 104 \<and>
   icsk_ca_state ex_sock < TCP_CA_Recovery \<and>
   (ucast (prev_ca_state (tcp_caohejing_init zero_caohejing)) :: u8) < TCP_CA_Recovery \<and>
   \<not> packet_conservation (tcp_caohejing_init zero_caohejing) \<and>
   snd_cwnd (ex_sock\<lparr>snd_cwnd := 104, sk_pacing_rate := 1806750000\<rparr>)
     = min 104 (snd_cwnd_clamp ex_sock)"
proof -
  have r: "tcp_caohejing_cong_control \<lparr>conservation = 1, start = 0\<rparr> ex_sock
       (tcp_caohejing_init zero_caohejing) ex_sample
     = Inr (\<lparr>conservation = 1, start = 1\<rparr>,
            ex_sock\<lparr>snd_cwnd := 104, sk_pacing_rate := 1806750000\<rparr>, ex_w_first)"
    by code_simp
  have e: "cong_control_estimate ex_sock (tcp_caohejing_init zero_caohejing) ex_sample
     = Inr (ex_w_first_est, True)"
    by code_simp
  have s: "caohejing_tso_segs_goal ex_sock = Inr 1"
    by code_simp
  have v: "spec_base_cwnd (unat (minmax_get (bw ex_w_first_est)))
             (unat (min_rtt_us ex_w_first_est)) 256 (unat (1 :: u32)) = 104"
    by (simp add: spec_base_cwnd_def Let_def minmax_get_def ex_w_first_est_def ex_w_first_def)
  have i: "icsk_ca_state ex_sock < TCP_CA_Recovery"
    "(ucast (prev_ca_state (tcp_caohejing_init zero_caohejing)) :: u8) < TCP_CA_Recovery"
    "\<not> packet_conservation (tcp_caohejing_init zero_caohejing)"
    by (simp_all add: ex_sock_def tcp_caohejing_init_def zero_caohejing_def TCP_CA_Recovery_def
          TCP_CA_Open_def Let_def)
  from base_cwnd_unit_gain [OF r] obtain w4 nx segs c where
    "cong_control_estimate ex_sock (tcp_caohejing_init zero_caohejing) ex_sample = Inr (w4, nx)"
    "caohejing_tso_segs_goal ex_sock = Inr segs"
    "spec_base_cwnd (unat (minmax_get (bw w4))) (unat (min_rtt_us w4)) 256 (unat segs) < 2 ^ 32 \<longrightarrow>
       unat c = spec_base_cwnd (unat (minmax_get (bw w4))) (unat (min_rtt_us w4)) 256 (unat segs)"
    "conservation \<lparr>conservation = 1, start = 0\<rparr> = 0 \<or>
      (icsk_ca_state ex_sock < TCP_CA_Recovery \<and>
       (ucast (prev_ca_state (tcp_caohejing_init zero_caohejing)) :: u8) < TCP_CA_Recovery \<and>
       \<not> packet_conservation (tcp_caohejing_init zero_caohejing)) \<longrightarrow>
      snd_cwnd (ex_sock\<lparr>snd_cwnd := 104, sk_pacing_rate := 1806750000\<rparr>)
        = min c (snd_cwnd_clamp ex_sock)"
    by blast
  with e s v i have uc: "unat c = 104"
    and sc: "snd_cwnd (ex_sock\<lparr>snd_cwnd := 104, sk_pacing_rate := 1806750000\<rparr>)
        = min c (snd_cwnd_clamp ex_sock)"
    by simp_all
  from uc have "c = 104" by (simp add: word_unat_eq_iff)
  with sc have "snd_cwnd (ex_sock\<lparr>snd_cwnd := 104, sk_pacing_rate := 1806750000\<rparr>)
        = min 104 (snd_cwnd_clamp ex_sock)"
    by (simp only:)
  with r e s v i show ?thesis by blast
qed

text \<open>The claim as stated fails on the first call of a connection: the filter's maximum is
  \<open>BW_UNIT\<close>, \<open>min_rtt_us\<close> is 100, the gain is 320 and the TSO goal is 1, so the claim's
  formula gives 128, and the call writes 104.\<close>

theorem base_cwnd_gain_counterexample:
  "tcp_caohejing_cong_control \<lparr>conservation = 1, start = 0\<rparr> ex_sock
       (tcp_caohejing_init zero_caohejing) ex_sample
     = Inr (\<lparr>conservation = 1, start = 1\<rparr>,
            ex_sock\<lparr>snd_cwnd := 104, sk_pacing_rate := 1806750000\<rparr>, ex_w_first) \<and>
   cong_control_estimate ex_sock (tcp_caohejing_init zero_caohejing) ex_sample
     = Inr (ex_w_first_est, True) \<and>
   cong_control_gain 0 ex_w_first_est 16777216 = ex_w_first_est \<and>
   cong_control_cwnd ex_sock ex_w_first_est 16777216 = Inr 104 \<and>
   caohejing_tso_segs_goal ex_sock = Inr 1 \<and>
   spec_base_cwnd (unat (minmax_get (bw ex_w_first_est))) (unat (min_rtt_us ex_w_first_est))
     (unat (gain ex_w_first_est)) (unat (1 :: u32)) = 128 \<and>
   unat (snd_cwnd (ex_sock\<lparr>snd_cwnd := 104, sk_pacing_rate := 1806750000\<rparr>)) \<noteq> 128"
proof -
  have "tcp_caohejing_cong_control \<lparr>conservation = 1, start = 0\<rparr> ex_sock
       (tcp_caohejing_init zero_caohejing) ex_sample
     = Inr (\<lparr>conservation = 1, start = 1\<rparr>,
            ex_sock\<lparr>snd_cwnd := 104, sk_pacing_rate := 1806750000\<rparr>, ex_w_first)"
    by code_simp
  moreover have "cong_control_estimate ex_sock (tcp_caohejing_init zero_caohejing) ex_sample
     = Inr (ex_w_first_est, True)"
    by code_simp
  moreover have "cong_control_gain 0 ex_w_first_est 16777216 = ex_w_first_est"
    by code_simp
  moreover have "cong_control_cwnd ex_sock ex_w_first_est 16777216 = Inr 104"
    by code_simp
  moreover have "caohejing_tso_segs_goal ex_sock = Inr 1"
    by code_simp
  moreover have "spec_base_cwnd (unat (minmax_get (bw ex_w_first_est)))
     (unat (min_rtt_us ex_w_first_est)) (unat (gain ex_w_first_est)) (unat (1 :: u32)) = 128"
    by (simp add: spec_base_cwnd_def Let_def minmax_get_def ex_w_first_est_def ex_w_first_def
          tcp_caohejing_init_def zero_caohejing_def CAL_UNIT_def CAL_SCALE_def)
  moreover have
    "unat (snd_cwnd (ex_sock\<lparr>snd_cwnd := 104, sk_pacing_rate := 1806750000\<rparr>)) \<noteq> 128"
    by simp
  ultimately show ?thesis by blast
qed

text \<open>Claim C4, as amended. The window written at line 199 is always even, and at least 2
  whenever the sum of line 197 fits 32 bits. With the recovery handling idle the window a
  call returns is that one capped by \<^verbatim>\<open>snd_cwnd_clamp\<close>, hence even and at least 2 when
  the cap is not below it. The recovery handling and the cap can leave an odd window or
  one below 2.\<close>

theorem cwnd_even_at_line_199:
  assumes "tcp_caohejing_cong_control g sk w rs = Inr (g', sk', w')"
  shows "\<exists>w4 nx segs c.
           cong_control_estimate sk w rs = Inr (w4, nx) \<and>
           caohejing_tso_segs_goal sk = Inr segs \<and>
           cong_control_cwnd sk (cong_control_gain (start g) w4 (ucast (minmax_get (bw w4))))
             (ucast (minmax_get (bw w4))) = Inr c \<and>
           even (unat c) \<and>
           (max 2 ((unat (minmax_get (bw w4)) * unat (min_rtt_us w4) + 2 ^ 24 - 1) div 2 ^ 24)
              + 3 * unat segs + 1 < 2 ^ 32 \<longrightarrow> 2 \<le> unat c) \<and>
           ((conservation g = 0 \<or>
             (icsk_ca_state sk < TCP_CA_Recovery \<and>
              (ucast (prev_ca_state w) :: u8) < TCP_CA_Recovery \<and> \<not> packet_conservation w)) \<and>
            c \<le> snd_cwnd_clamp sk \<longrightarrow>
            snd_cwnd sk' = c)"
proof -
  from assms obtain w4 nx c segs where
    e: "cong_control_estimate sk w rs = Inr (w4, nx)"
    and s: "caohejing_tso_segs_goal sk = Inr segs"
    and c: "cong_control_cwnd sk (cong_control_gain (start g) w4 (ucast (minmax_get (bw w4))))
       (ucast (minmax_get (bw w4))) = Inr c"
    by (rule cong_control_line_199)
  have "even (unat c)" using c by (rule cong_control_cwnd_even)
  moreover have "2 \<le> unat c"
    if "max 2 ((unat (minmax_get (bw w4)) * unat (min_rtt_us w4) + 2 ^ 24 - 1) div 2 ^ 24)
              + 3 * unat segs + 1 < 2 ^ 32"
    using cong_control_cwnd_unat [OF c s] that by (simp add: gain_min_rtt)
  moreover have "snd_cwnd sk' = c"
    if "(conservation g = 0 \<or>
            (icsk_ca_state sk < TCP_CA_Recovery \<and>
             (ucast (prev_ca_state w) :: u8) < TCP_CA_Recovery \<and> \<not> packet_conservation w)) \<and>
        c \<le> snd_cwnd_clamp sk"
  proof -
    from that have i: "conservation g = 0 \<or>
            (icsk_ca_state sk < TCP_CA_Recovery \<and>
             (ucast (prev_ca_state w) :: u8) < TCP_CA_Recovery \<and> \<not> packet_conservation w)"
      and l: "c \<le> snd_cwnd_clamp sk" by blast+
    from cong_control_idle [OF assms i] e c have "snd_cwnd sk' = min c (snd_cwnd_clamp sk)"
      by (metis Inr_inject prod.inject)
    with l show ?thesis by simp
  qed
  ultimately show ?thesis using e s c by blast
qed

theorem cwnd_even_at_line_199_witness:
  "tcp_caohejing_cong_control \<lparr>conservation = 1, start = 0\<rparr> ex_sock
       (tcp_caohejing_init zero_caohejing) ex_sample
     = Inr (\<lparr>conservation = 1, start = 1\<rparr>,
            ex_sock\<lparr>snd_cwnd := 104, sk_pacing_rate := 1806750000\<rparr>, ex_w_first) \<and>
   cong_control_estimate ex_sock (tcp_caohejing_init zero_caohejing) ex_sample
     = Inr (ex_w_first_est, True) \<and>
   caohejing_tso_segs_goal ex_sock = Inr 1 \<and>
   cong_control_cwnd ex_sock (cong_control_gain 0 ex_w_first_est 16777216) 16777216 = Inr 104 \<and>
   max 2 ((unat (minmax_get (bw ex_w_first_est)) * unat (min_rtt_us ex_w_first_est) + 2 ^ 24 - 1)
            div 2 ^ 24) + 3 * unat (1 :: u32) + 1 < (2 :: nat) ^ 32 \<and>
   icsk_ca_state ex_sock < TCP_CA_Recovery \<and>
   (ucast (prev_ca_state (tcp_caohejing_init zero_caohejing)) :: u8) < TCP_CA_Recovery \<and>
   \<not> packet_conservation (tcp_caohejing_init zero_caohejing) \<and>
   (104 :: u32) \<le> snd_cwnd_clamp ex_sock \<and>
   even (unat (104 :: u32)) \<and> 2 \<le> unat (104 :: u32) \<and>
   snd_cwnd (ex_sock\<lparr>snd_cwnd := 104, sk_pacing_rate := 1806750000\<rparr>) = 104"
proof -
  have r: "tcp_caohejing_cong_control \<lparr>conservation = 1, start = 0\<rparr> ex_sock
       (tcp_caohejing_init zero_caohejing) ex_sample
     = Inr (\<lparr>conservation = 1, start = 1\<rparr>,
            ex_sock\<lparr>snd_cwnd := 104, sk_pacing_rate := 1806750000\<rparr>, ex_w_first)"
    by code_simp
  have e: "cong_control_estimate ex_sock (tcp_caohejing_init zero_caohejing) ex_sample
     = Inr (ex_w_first_est, True)"
    by code_simp
  have s: "caohejing_tso_segs_goal ex_sock = Inr 1"
    by code_simp
  have c: "cong_control_cwnd ex_sock (cong_control_gain 0 ex_w_first_est 16777216) 16777216
             = Inr 104"
    by code_simp
  have m: "(ucast (minmax_get (bw ex_w_first_est)) :: u64) = 16777216"
    by (simp add: minmax_get_def ex_w_first_est_def)
  have v: "max 2 ((unat (minmax_get (bw ex_w_first_est)) * unat (min_rtt_us ex_w_first_est)
                     + 2 ^ 24 - 1) div 2 ^ 24) + 3 * unat (1 :: u32) + 1 < (2 :: nat) ^ 32"
    by (simp add: minmax_get_def ex_w_first_est_def ex_w_first_def)
  have i: "icsk_ca_state ex_sock < TCP_CA_Recovery"
    "(ucast (prev_ca_state (tcp_caohejing_init zero_caohejing)) :: u8) < TCP_CA_Recovery"
    "\<not> packet_conservation (tcp_caohejing_init zero_caohejing)"
    "(104 :: u32) \<le> snd_cwnd_clamp ex_sock"
    by (simp_all add: ex_sock_def tcp_caohejing_init_def zero_caohejing_def TCP_CA_Recovery_def
          TCP_CA_Open_def Let_def)
  from cwnd_even_at_line_199 [OF r] obtain w4 nx segs k where
    "cong_control_estimate ex_sock (tcp_caohejing_init zero_caohejing) ex_sample = Inr (w4, nx)"
    "caohejing_tso_segs_goal ex_sock = Inr segs"
    "cong_control_cwnd ex_sock
       (cong_control_gain (start \<lparr>conservation = 1, start = 0\<rparr>) w4 (ucast (minmax_get (bw w4))))
       (ucast (minmax_get (bw w4))) = Inr k"
    "even (unat k)"
    "max 2 ((unat (minmax_get (bw w4)) * unat (min_rtt_us w4) + 2 ^ 24 - 1) div 2 ^ 24)
       + 3 * unat segs + 1 < 2 ^ 32 \<longrightarrow> 2 \<le> unat k"
    "(conservation \<lparr>conservation = 1, start = 0\<rparr> = 0 \<or>
       (icsk_ca_state ex_sock < TCP_CA_Recovery \<and>
        (ucast (prev_ca_state (tcp_caohejing_init zero_caohejing)) :: u8) < TCP_CA_Recovery \<and>
        \<not> packet_conservation (tcp_caohejing_init zero_caohejing))) \<and>
      k \<le> snd_cwnd_clamp ex_sock \<longrightarrow>
      snd_cwnd (ex_sock\<lparr>snd_cwnd := 104, sk_pacing_rate := 1806750000\<rparr>) = k"
    by blast
  with e s c m v i have "k = 104" "even (unat k)" "2 \<le> unat k"
    "snd_cwnd (ex_sock\<lparr>snd_cwnd := 104, sk_pacing_rate := 1806750000\<rparr>) = k"
    by simp_all
  then have "even (unat (104 :: u32))" "2 \<le> unat (104 :: u32)"
    "snd_cwnd (ex_sock\<lparr>snd_cwnd := 104, sk_pacing_rate := 1806750000\<rparr>) = 104"
    by (simp_all only:)
  with r e s c v i show ?thesis by blast
qed

text \<open>The claim as stated fails when recovery is entered with 10 packets in flight and one
  packet acked: the call returns the odd window 11. It also fails under a cap of 1 with the
  conservative mode off: the call returns the window 1.\<close>

theorem cwnd_even_counterexample:
  "tcp_caohejing_cong_control \<lparr>conservation = 1, start = 7\<rparr> ex_sock_recovery ex_w_prior20
       (ex_sample\<lparr>acked_sacked := 1\<rparr>)
     = Inr (\<lparr>conservation = 1, start = 8\<rparr>,
            ex_sock_recovery\<lparr>snd_cwnd := 11, sk_pacing_rate := 1084050000\<rparr>, ex_w_recovery) \<and>
   odd (unat (snd_cwnd (ex_sock_recovery\<lparr>snd_cwnd := 11, sk_pacing_rate := 1084050000\<rparr>))) \<and>
   tcp_caohejing_cong_control \<lparr>conservation = 0, start = 0\<rparr> (ex_sock\<lparr>snd_cwnd_clamp := 1\<rparr>)
       (tcp_caohejing_init zero_caohejing) ex_sample
     = Inr (\<lparr>conservation = 0, start = 1\<rparr>,
            ex_sock\<lparr>snd_cwnd_clamp := 1, snd_cwnd := 1, sk_pacing_rate := 1806750000\<rparr>,
            ex_w_first) \<and>
   unat (snd_cwnd (ex_sock\<lparr>snd_cwnd_clamp := 1, snd_cwnd := 1, sk_pacing_rate := 1806750000\<rparr>))
     < 2"
proof -
  have "tcp_caohejing_cong_control \<lparr>conservation = 1, start = 7\<rparr> ex_sock_recovery ex_w_prior20
       (ex_sample\<lparr>acked_sacked := 1\<rparr>)
     = Inr (\<lparr>conservation = 1, start = 8\<rparr>,
            ex_sock_recovery\<lparr>snd_cwnd := 11, sk_pacing_rate := 1084050000\<rparr>, ex_w_recovery)"
    by code_simp
  moreover have
    "odd (unat (snd_cwnd (ex_sock_recovery\<lparr>snd_cwnd := 11, sk_pacing_rate := 1084050000\<rparr>)))"
    by simp
  moreover have
    "tcp_caohejing_cong_control \<lparr>conservation = 0, start = 0\<rparr> (ex_sock\<lparr>snd_cwnd_clamp := 1\<rparr>)
       (tcp_caohejing_init zero_caohejing) ex_sample
     = Inr (\<lparr>conservation = 0, start = 1\<rparr>,
            ex_sock\<lparr>snd_cwnd_clamp := 1, snd_cwnd := 1, sk_pacing_rate := 1806750000\<rparr>,
            ex_w_first)"
    by code_simp
  moreover have
    "unat (snd_cwnd (ex_sock\<lparr>snd_cwnd_clamp := 1, snd_cwnd := 1, sk_pacing_rate := 1806750000\<rparr>))
       < 2"
    by simp
  ultimately show ?thesis by blast
qed

section \<open>The bandwidth sample\<close>

text \<open>Claim C2, as amended. Nothing guards the sample interval: line 162 divides by the low
  32 bits of \<open>interval_us\<close>, whatever its sign. When those bits are zero (an interval of 0
  among them) the division faults and the call returns no state. Otherwise the division is
  performed, for a negative interval as for a positive one, and the bandwidth step leaves
  the private state as it is when the quotient does not exceed the filter's maximum, and
  feeds the filter and sets \<open>curr_bw\<close> to the filter's new maximum when it does.\<close>

theorem bw_step_unguarded:
  "((ucast (interval_us rs) :: u32) = 0 \<longrightarrow>
      tcp_caohejing_cong_control g sk w rs = Inl Divide_error) \<and>
   ((ucast (interval_us rs) :: u32) \<noteq> 0 \<longrightarrow>
      (\<exists>q. do_div (sample_dividend rs) (interval_us rs) = Inr q \<and>
         unat q = unat (sample_dividend rs) div unat (ucast (interval_us rs) :: u32) \<and>
         (q \<le> ucast (minmax_get (bw w)) \<longrightarrow> cong_control_bw rs w = Inr w) \<and>
         (ucast (minmax_get (bw w)) < q \<longrightarrow>
            cong_control_bw rs w =
              Inr (w\<lparr>bw := minmax_running_max (bw w) 10 (rtt_cnt w) (ucast q),
                     curr_bw := ucast (minmax_get
                                   (minmax_running_max (bw w) 10 (rtt_cnt w) (ucast q)))\<rparr>))))"
proof (intro conjI impI)
  assume "(ucast (interval_us rs) :: u32) = 0"
  then have "do_div (sample_dividend rs) (interval_us rs) = Inl Divide_error"
    by (rule do_div_zero)
  then show "tcp_caohejing_cong_control g sk w rs = Inl Divide_error"
    by (rule cong_control_bw_fault)
next
  assume "(ucast (interval_us rs) :: u32) \<noteq> 0"
  then obtain q where
    q: "do_div (sample_dividend rs) (interval_us rs) = Inr q"
    and u: "unat q = unat (sample_dividend rs) div unat (ucast (interval_us rs) :: u32)"
    using do_div_nonzero by blast
  from cong_control_bw_cases [OF q] q u
  show "\<exists>q. do_div (sample_dividend rs) (interval_us rs) = Inr q \<and>
         unat q = unat (sample_dividend rs) div unat (ucast (interval_us rs) :: u32) \<and>
         (q \<le> ucast (minmax_get (bw w)) \<longrightarrow> cong_control_bw rs w = Inr w) \<and>
         (ucast (minmax_get (bw w)) < q \<longrightarrow>
            cong_control_bw rs w =
              Inr (w\<lparr>bw := minmax_running_max (bw w) 10 (rtt_cnt w) (ucast q),
                     curr_bw := ucast (minmax_get
                                   (minmax_running_max (bw w) 10 (rtt_cnt w) (ucast q)))\<rparr>))"
    by blast
qed

theorem bw_step_unguarded_witness:
  "(ucast (interval_us (ex_sample\<lparr>interval_us := 0\<rparr>)) :: u32) = 0 \<and>
   tcp_caohejing_cong_control \<lparr>conservation = 1, start = 0\<rparr> ex_sock ex_w_first
     (ex_sample\<lparr>interval_us := 0\<rparr>) = Inl Divide_error \<and>
   (ucast (interval_us (ex_sample\<lparr>delivered := 500\<rparr>)) :: u32) \<noteq> 0 \<and>
   do_div (sample_dividend (ex_sample\<lparr>delivered := 500\<rparr>))
     (interval_us (ex_sample\<lparr>delivered := 500\<rparr>)) = Inr 8388608 \<and>
   (8388608 :: u64) \<le> ucast (minmax_get (bw ex_w_first_est)) \<and>
   cong_control_bw (ex_sample\<lparr>delivered := 500\<rparr>) ex_w_first_est = Inr ex_w_first_est \<and>
   (ucast (interval_us ex_sample) :: u32) \<noteq> 0 \<and>
   do_div (sample_dividend ex_sample) (interval_us ex_sample) = Inr 16777216 \<and>
   ucast (minmax_get (bw ex_w_first)) < (16777216 :: u64) \<and>
   cong_control_bw ex_sample ex_w_first =
     Inr (ex_w_first\<lparr>bw := \<lparr>s0 = \<lparr>smp_t = 0, smp_v = 16777216\<rparr>,
                              s1 = \<lparr>smp_t = 0, smp_v = 16777216\<rparr>,
                              s2 = \<lparr>smp_t = 0, smp_v = 16777216\<rparr>\<rparr>\<rparr>)"
proof -
  have z: "(ucast (interval_us (ex_sample\<lparr>interval_us := 0\<rparr>)) :: u32) = 0"
    by simp
  have n: "(ucast (interval_us (ex_sample\<lparr>delivered := 500\<rparr>)) :: u32) \<noteq> 0"
    "(ucast (interval_us ex_sample) :: u32) \<noteq> 0"
    by (simp_all add: ex_sample_def)
  have d: "do_div (sample_dividend (ex_sample\<lparr>delivered := 500\<rparr>))
     (interval_us (ex_sample\<lparr>delivered := 500\<rparr>)) = Inr 8388608"
    "do_div (sample_dividend ex_sample) (interval_us ex_sample) = Inr 16777216"
    by code_simp+
  have c: "(8388608 :: u64) \<le> ucast (minmax_get (bw ex_w_first_est))"
    "ucast (minmax_get (bw ex_w_first)) < (16777216 :: u64)"
    by code_simp+
  have m: "ex_w_first\<lparr>bw := minmax_running_max (bw ex_w_first) 10 (rtt_cnt ex_w_first)
                               (ucast (16777216 :: u64)),
                     curr_bw := ucast (minmax_get
                                   (minmax_running_max (bw ex_w_first) 10 (rtt_cnt ex_w_first)
                                      (ucast (16777216 :: u64))))\<rparr>
           = ex_w_first\<lparr>bw := \<lparr>s0 = \<lparr>smp_t = 0, smp_v = 16777216\<rparr>,
                              s1 = \<lparr>smp_t = 0, smp_v = 16777216\<rparr>,
                              s2 = \<lparr>smp_t = 0, smp_v = 16777216\<rparr>\<rparr>\<rparr>"
    by code_simp
  from bw_step_unguarded [where rs = "ex_sample\<lparr>interval_us := 0\<rparr>"
      and g = "\<lparr>conservation = 1, start = 0\<rparr>" and sk = ex_sock and w = ex_w_first] z
  have a1: "tcp_caohejing_cong_control \<lparr>conservation = 1, start = 0\<rparr> ex_sock ex_w_first
     (ex_sample\<lparr>interval_us := 0\<rparr>) = Inl Divide_error"
    by blast
  from bw_step_unguarded [where rs = "ex_sample\<lparr>delivered := 500\<rparr>" and w = ex_w_first_est]
    n(1) d(1) c(1)
  have a2: "cong_control_bw (ex_sample\<lparr>delivered := 500\<rparr>) ex_w_first_est = Inr ex_w_first_est"
    by (metis Inr_inject)
  from bw_step_unguarded [where rs = ex_sample and w = ex_w_first] n(2) d(2) c(2)
  have "cong_control_bw ex_sample ex_w_first =
     Inr (ex_w_first\<lparr>bw := minmax_running_max (bw ex_w_first) 10 (rtt_cnt ex_w_first)
                               (ucast (16777216 :: u64)),
                     curr_bw := ucast (minmax_get
                                   (minmax_running_max (bw ex_w_first) 10 (rtt_cnt ex_w_first)
                                      (ucast (16777216 :: u64))))\<rparr>)"
    by (metis Inr_inject)
  then have a3: "cong_control_bw ex_sample ex_w_first =
     Inr (ex_w_first\<lparr>bw := \<lparr>s0 = \<lparr>smp_t = 0, smp_v = 16777216\<rparr>,
                              s1 = \<lparr>smp_t = 0, smp_v = 16777216\<rparr>,
                              s2 = \<lparr>smp_t = 0, smp_v = 16777216\<rparr>\<rparr>\<rparr>)"
    by (simp only: m)
  from z a1 n d c a2 a3 show ?thesis by blast
qed

text \<open>The claim as stated fails for the sample of 256 packets with the interval -1: the call
  divides by \<open>2^32 - 1\<close>, the quotient 1 exceeds the empty filter's maximum 0, and the
  bandwidth step writes the filter and \<open>curr_bw\<close>; the call returns with \<open>curr_bw\<close> and
  \<open>last_bw\<close> at 1 where the same sample with a zero delivery leaves them at 0.\<close>

theorem bw_step_negative_interval_counterexample:
  "sint (interval_us (ex_sample\<lparr>delivered := 256, interval_us := - 1\<rparr>)) < 0 \<and>
   do_div (sample_dividend (ex_sample\<lparr>delivered := 256, interval_us := - 1\<rparr>))
     (interval_us (ex_sample\<lparr>delivered := 256, interval_us := - 1\<rparr>)) = Inr 1 \<and>
   cong_control_bw (ex_sample\<lparr>delivered := 256, interval_us := - 1\<rparr>)
       (tcp_caohejing_init zero_caohejing)
     = Inr ((tcp_caohejing_init zero_caohejing)
              \<lparr>bw := \<lparr>s0 = \<lparr>smp_t = 0, smp_v = 1\<rparr>, s1 = \<lparr>smp_t = 0, smp_v = 1\<rparr>,
                      s2 = \<lparr>smp_t = 0, smp_v = 1\<rparr>\<rparr>,
               curr_bw := 1\<rparr>) \<and>
   bw (tcp_caohejing_init zero_caohejing)
     \<noteq> \<lparr>s0 = \<lparr>smp_t = 0, smp_v = 1\<rparr>, s1 = \<lparr>smp_t = 0, smp_v = 1\<rparr>, s2 = \<lparr>smp_t = 0, smp_v = 1\<rparr>\<rparr> \<and>
   curr_bw (tcp_caohejing_init zero_caohejing) \<noteq> 1 \<and>
   tcp_caohejing_cong_control \<lparr>conservation = 1, start = 0\<rparr> ex_sock
       (tcp_caohejing_init zero_caohejing) (ex_sample\<lparr>delivered := 256, interval_us := - 1\<rparr>)
     = Inr (\<lparr>conservation = 1, start = 1\<rparr>,
            ex_sock\<lparr>snd_cwnd := 6, sk_pacing_rate := 107\<rparr>,
            ex_w_first\<lparr>curr_bw := 1, last_bw := 1\<rparr>)"
proof -
  have "sint (interval_us (ex_sample\<lparr>delivered := 256, interval_us := - 1\<rparr>)) < 0"
    by simp
  moreover have
    "do_div (sample_dividend (ex_sample\<lparr>delivered := 256, interval_us := - 1\<rparr>))
       (interval_us (ex_sample\<lparr>delivered := 256, interval_us := - 1\<rparr>)) = Inr 1"
    by code_simp
  moreover have
    "cong_control_bw (ex_sample\<lparr>delivered := 256, interval_us := - 1\<rparr>)
       (tcp_caohejing_init zero_caohejing)
     = Inr ((tcp_caohejing_init zero_caohejing)
              \<lparr>bw := \<lparr>s0 = \<lparr>smp_t = 0, smp_v = 1\<rparr>, s1 = \<lparr>smp_t = 0, smp_v = 1\<rparr>,
                      s2 = \<lparr>smp_t = 0, smp_v = 1\<rparr>\<rparr>,
               curr_bw := 1\<rparr>)"
    by code_simp
  moreover have
    "bw (tcp_caohejing_init zero_caohejing)
       \<noteq> \<lparr>s0 = \<lparr>smp_t = 0, smp_v = 1\<rparr>, s1 = \<lparr>smp_t = 0, smp_v = 1\<rparr>, s2 = \<lparr>smp_t = 0, smp_v = 1\<rparr>\<rparr>"
    "curr_bw (tcp_caohejing_init zero_caohejing) \<noteq> 1"
    by code_simp+
  moreover have
    "tcp_caohejing_cong_control \<lparr>conservation = 1, start = 0\<rparr> ex_sock
       (tcp_caohejing_init zero_caohejing) (ex_sample\<lparr>delivered := 256, interval_us := - 1\<rparr>)
     = Inr (\<lparr>conservation = 1, start = 1\<rparr>,
            ex_sock\<lparr>snd_cwnd := 6, sk_pacing_rate := 107\<rparr>,
            ex_w_first\<lparr>curr_bw := 1, last_bw := 1\<rparr>)"
    by code_simp
  ultimately show ?thesis by blast
qed

section \<open>The bandwidth snapshots\<close>

text \<open>Claim C5, as amended. On a call that is not a window boundary (a window has started
  and the time since \<open>cycle_mstamp\<close> does not exceed \<open>min_rtt_us\<close> as this call has updated
  it) \<open>last_bw\<close> keeps its value; \<open>curr_bw\<close> keeps its value when the bandwidth sample does
  not exceed the filter's maximum, and is set to the filter's new maximum (line 165) when it
  does. So \<open>last_bw\<close> is replaced only at window boundaries, and \<open>curr_bw\<close> at window
  boundaries and on every new maximum of the filter.\<close>

theorem bw_snapshots_mid_window:
  assumes "tcp_caohejing_cong_control g sk w rs = Inr (g', sk', w')"
    and "cycle_mstamp w \<noteq> 0"
    and "\<not> min_rtt_us w' < tcp_stamp_us_delta (delivered_mstamp sk) (cycle_mstamp w)"
  shows "last_bw w' = last_bw w \<and>
         (\<exists>q. do_div (sample_dividend rs) (interval_us rs) = Inr q \<and>
              (if ucast (minmax_get (bw w)) < q
               then curr_bw w' = ucast (minmax_get (bw w'))
               else curr_bw w' = curr_bw w \<and> bw w' = bw w))"
proof -
  define w2 where "w2 = cong_control_min_rtt rs (cong_control_round sk rs w)"
  have w2: "bw w2 = bw w" "curr_bw w2 = curr_bw w" "last_bw w2 = last_bw w"
    by (simp_all add: w2_def cong_control_min_rtt_def cong_control_round_def)
  from assms(1) obtain w4 nx where
    e: "cong_control_estimate sk w rs = Inr (w4, nx)"
    and t: "last_bw w' = last_bw w4" "curr_bw w' = curr_bw w4"
      "bw w' = bw (cong_control_reset nx w4)"
    by (rule cong_control_tail)
  have "min_rtt_us w' = min_rtt_us w4"
    using cong_control_min_rtt_us [OF assms(1)] estimate_min_rtt [OF e] by simp
  with assms(3) have
    f: "\<not> min_rtt_us w4 < tcp_stamp_us_delta (delivered_mstamp sk) (cycle_mstamp w)"
    by simp
  from estimate_mid_window [OF e assms(2) f] have
    n: "\<not> nx" and b: "cong_control_bw rs w2 = Inr w4"
    by (simp_all add: w2_def)
  from b obtain q where q: "do_div (sample_dividend rs) (interval_us rs) = Inr q"
    by (auto simp: cong_control_bw_def split: sum.splits)
  from n t have t': "bw w' = bw w4"
    by (simp add: cong_control_reset_def)
  show ?thesis
  proof (cases "ucast (minmax_get (bw w)) < q")
    case True
    then have "ucast (minmax_get (bw w2)) < q" by (simp add: w2)
    from cong_control_bw_cases(2) [OF q this] b
    have "curr_bw w4 = ucast (minmax_get (bw w4))" "last_bw w4 = last_bw w2"
      by auto
    with True q t t' w2 show ?thesis by auto
  next
    case False
    then have "q \<le> ucast (minmax_get (bw w2))" by (simp add: w2)
    from cong_control_bw_cases(1) [OF q this] b have "w4 = w2" by simp
    with False q t t' w2 show ?thesis by auto
  qed
qed

theorem bw_snapshots_mid_window_witness:
  "tcp_caohejing_cong_control \<lparr>conservation = 1, start = 2\<rparr> (ex_sock\<lparr>delivered_mstamp := 1020\<rparr>)
       ex_w_second ex_sample
     = Inr (\<lparr>conservation = 1, start = 3\<rparr>,
            ex_sock\<lparr>delivered_mstamp := 1020, snd_cwnd := 204, sk_pacing_rate := 3613500000\<rparr>,
            ex_w_second\<lparr>rtt_cnt := 2\<rparr>) \<and>
   cycle_mstamp ex_w_second \<noteq> 0 \<and>
   \<not> min_rtt_us (ex_w_second\<lparr>rtt_cnt := 2\<rparr>)
       < tcp_stamp_us_delta (delivered_mstamp (ex_sock\<lparr>delivered_mstamp := 1020\<rparr>))
           (cycle_mstamp ex_w_second) \<and>
   do_div (sample_dividend ex_sample) (interval_us ex_sample) = Inr 16777216 \<and>
   \<not> ucast (minmax_get (bw ex_w_second)) < (16777216 :: u64) \<and>
   last_bw (ex_w_second\<lparr>rtt_cnt := 2\<rparr>) = last_bw ex_w_second \<and>
   curr_bw (ex_w_second\<lparr>rtt_cnt := 2\<rparr>) = curr_bw ex_w_second"
proof -
  have r: "tcp_caohejing_cong_control \<lparr>conservation = 1, start = 2\<rparr>
       (ex_sock\<lparr>delivered_mstamp := 1020\<rparr>) ex_w_second ex_sample
     = Inr (\<lparr>conservation = 1, start = 3\<rparr>,
            ex_sock\<lparr>delivered_mstamp := 1020, snd_cwnd := 204, sk_pacing_rate := 3613500000\<rparr>,
            ex_w_second\<lparr>rtt_cnt := 2\<rparr>)"
    by code_simp
  have h: "cycle_mstamp ex_w_second \<noteq> 0"
    "\<not> min_rtt_us (ex_w_second\<lparr>rtt_cnt := 2\<rparr>)
       < tcp_stamp_us_delta (delivered_mstamp (ex_sock\<lparr>delivered_mstamp := 1020\<rparr>))
           (cycle_mstamp ex_w_second)"
    by code_simp+
  have d: "do_div (sample_dividend ex_sample) (interval_us ex_sample) = Inr 16777216"
    "\<not> ucast (minmax_get (bw ex_w_second)) < (16777216 :: u64)"
    by code_simp+
  from bw_snapshots_mid_window [OF r h] d have
    "last_bw (ex_w_second\<lparr>rtt_cnt := 2\<rparr>) = last_bw ex_w_second"
    "curr_bw (ex_w_second\<lparr>rtt_cnt := 2\<rparr>) = curr_bw ex_w_second"
    by auto
  with r h d show ?thesis by blast
qed

text \<open>The claim as stated fails on the second call of a connection, 10 microseconds after
  the first with \<open>min_rtt_us\<close> at 100, so mid-window: its sample of twice the bandwidth
  exceeds the filter's maximum, and \<open>curr_bw\<close> goes from \<open>BW_UNIT\<close> to twice that while
  \<open>cycle_mstamp\<close> and \<open>last_bw\<close> stay.\<close>

theorem curr_bw_mid_window_counterexample:
  "tcp_caohejing_cong_control \<lparr>conservation = 1, start = 1\<rparr> (ex_sock\<lparr>delivered_mstamp := 1010\<rparr>)
       ex_w_first (ex_sample\<lparr>delivered := 2000\<rparr>)
     = Inr (\<lparr>conservation = 1, start = 2\<rparr>,
            ex_sock\<lparr>delivered_mstamp := 1010, snd_cwnd := 204, sk_pacing_rate := 3613500000\<rparr>,
            ex_w_second) \<and>
   cycle_mstamp ex_w_first \<noteq> 0 \<and>
   tcp_stamp_us_delta (delivered_mstamp (ex_sock\<lparr>delivered_mstamp := 1010\<rparr>))
     (cycle_mstamp ex_w_first) = 10 \<and>
   min_rtt_us ex_w_first = 100 \<and> min_rtt_us ex_w_second = 100 \<and>
   cycle_mstamp ex_w_second = cycle_mstamp ex_w_first \<and>
   last_bw ex_w_second = last_bw ex_w_first \<and>
   curr_bw ex_w_first = 16777216 \<and> curr_bw ex_w_second = 33554432"
proof -
  have "tcp_caohejing_cong_control \<lparr>conservation = 1, start = 1\<rparr>
       (ex_sock\<lparr>delivered_mstamp := 1010\<rparr>) ex_w_first (ex_sample\<lparr>delivered := 2000\<rparr>)
     = Inr (\<lparr>conservation = 1, start = 2\<rparr>,
            ex_sock\<lparr>delivered_mstamp := 1010, snd_cwnd := 204, sk_pacing_rate := 3613500000\<rparr>,
            ex_w_second)"
    by code_simp
  moreover have "cycle_mstamp ex_w_first \<noteq> 0"
    "tcp_stamp_us_delta (delivered_mstamp (ex_sock\<lparr>delivered_mstamp := 1010\<rparr>))
       (cycle_mstamp ex_w_first) = 10"
    "min_rtt_us ex_w_first = 100" "min_rtt_us ex_w_second = 100"
    "cycle_mstamp ex_w_second = cycle_mstamp ex_w_first"
    "last_bw ex_w_second = last_bw ex_w_first"
    "curr_bw ex_w_first = 16777216" "curr_bw ex_w_second = 33554432"
    by code_simp+
  ultimately show ?thesis by blast
qed

section \<open>The gain cycle\<close>

text \<open>Claim C6, as amended. After warm-up, that is with the counter \<open>start\<close> above 3, and
  with the recovery handling idle, a call ends as the transition rule says when the rule
  compares \<open>last_bw\<close> with the filter's maximum at the gain switch (the local \<open>bw\<close> of line
  169), not with \<open>curr_bw\<close>: in \<open>UP\<close>, if \<open>20 * bw > 21 * last_bw\<close> the phase stays \<open>UP\<close>
  with gain 320, otherwise it becomes \<open>DOWN\<close> with gain 192; in \<open>DOWN\<close>, if
  \<open>19 * last_bw > 20 * bw\<close> the phase becomes \<open>UP\<close> with gain 320, otherwise it stays
  \<open>DOWN\<close> with gain 192. The products are those of the code, in unsigned 64-bit
  arithmetic.\<close>

theorem gain_transition_after_warm_up:
  assumes "tcp_caohejing_cong_control g sk w rs = Inr (g', sk', w')"
    and "3 <s start g"
    and "conservation g = 0 \<or>
         (icsk_ca_state sk < TCP_CA_Recovery \<and>
          (ucast (prev_ca_state w) :: u8) < TCP_CA_Recovery \<and> \<not> packet_conservation w)"
  shows "\<exists>w4 nx.
           cong_control_estimate sk w rs = Inr (w4, nx) \<and>
           (state w = UP \<longrightarrow>
              (if 21 * last_bw w4 < 20 * ucast (minmax_get (bw w4))
               then state w' = UP \<and> gain w' = 320
               else state w' = DOWN \<and> gain w' = 192)) \<and>
           (state w = DOWN \<longrightarrow>
              (if 20 * ucast (minmax_get (bw w4)) < 19 * last_bw w4
               then state w' = UP \<and> gain w' = 320
               else state w' = DOWN \<and> gain w' = 192))"
proof -
  from cong_control_idle_gain [OF assms(1,3)] obtain w4 nx where
    e: "cong_control_estimate sk w rs = Inr (w4, nx)"
    and s4: "state w4 = state w"
    and s: "state w' = state (cong_control_gain (start g) w4 (ucast (minmax_get (bw w4))))"
    and k: "gain w' = gain (cong_control_gain (start g) w4 (ucast (minmax_get (bw w4))))"
    by blast
  define b :: u64 where "b = ucast (minmax_get (bw w4))"
  from assms(2) s k have sw: "state w' = state (gain_switch w4 b)"
    "gain w' = gain (gain_switch w4 b)"
    by (simp_all add: cong_control_gain_def b_def)
  have "if 21 * last_bw w4 < 20 * b
        then state w' = UP \<and> gain w' = 320 else state w' = DOWN \<and> gain w' = 192"
    if "state w = UP"
    using that gain_switch_cases(1,2) [of w4 b] by (simp add: sw s4)
  moreover have "if 20 * b < 19 * last_bw w4
        then state w' = UP \<and> gain w' = 320 else state w' = DOWN \<and> gain w' = 192"
    if "state w = DOWN"
    using that gain_switch_cases(3,4) [of w4 b] by (simp add: sw s4)
  ultimately show ?thesis using e unfolding b_def by blast
qed

theorem gain_transition_after_warm_up_witness:
  "tcp_caohejing_cong_control \<lparr>conservation = 1, start = 5\<rparr> ex_sock ex_w_drained
       (ex_sample\<lparr>delivered := 0\<rparr>)
     = Inr (\<lparr>conservation = 1, start = 6\<rparr>, ex_sock\<lparr>snd_cwnd := 6\<rparr>,
            ex_w_drained\<lparr>rtt_cnt := 5, gain := 320, state := 0\<rparr>) \<and>
   3 <s start \<lparr>conservation = 1, start = 5\<rparr> \<and>
   icsk_ca_state ex_sock < TCP_CA_Recovery \<and>
   (ucast (prev_ca_state ex_w_drained) :: u8) < TCP_CA_Recovery \<and>
   \<not> packet_conservation ex_w_drained \<and>
   cong_control_estimate ex_sock ex_w_drained (ex_sample\<lparr>delivered := 0\<rparr>)
     = Inr (ex_w_drained\<lparr>rtt_cnt := 5\<rparr>, False) \<and>
   state ex_w_drained = DOWN \<and>
   (20 :: u64) * ucast (minmax_get (bw (ex_w_drained\<lparr>rtt_cnt := 5\<rparr>)))
     < 19 * last_bw (ex_w_drained\<lparr>rtt_cnt := 5\<rparr>) \<and>
   state (ex_w_drained\<lparr>rtt_cnt := 5, gain := 320, state := 0\<rparr>) = UP \<and>
   gain (ex_w_drained\<lparr>rtt_cnt := 5, gain := 320, state := 0\<rparr>) = 320"
proof -
  have r: "tcp_caohejing_cong_control \<lparr>conservation = 1, start = 5\<rparr> ex_sock ex_w_drained
       (ex_sample\<lparr>delivered := 0\<rparr>)
     = Inr (\<lparr>conservation = 1, start = 6\<rparr>, ex_sock\<lparr>snd_cwnd := 6\<rparr>,
            ex_w_drained\<lparr>rtt_cnt := 5, gain := 320, state := 0\<rparr>)"
    by code_simp
  have h: "3 <s start \<lparr>conservation = 1, start = 5\<rparr>"
    "icsk_ca_state ex_sock < TCP_CA_Recovery"
    "(ucast (prev_ca_state ex_w_drained) :: u8) < TCP_CA_Recovery"
    "\<not> packet_conservation ex_w_drained"
    by code_simp+
  have e: "cong_control_estimate ex_sock ex_w_drained (ex_sample\<lparr>delivered := 0\<rparr>)
     = Inr (ex_w_drained\<lparr>rtt_cnt := 5\<rparr>, False)"
    by code_simp
  have d: "state ex_w_drained = DOWN"
    "(20 :: u64) * ucast (minmax_get (bw (ex_w_drained\<lparr>rtt_cnt := 5\<rparr>)))
       < 19 * last_bw (ex_w_drained\<lparr>rtt_cnt := 5\<rparr>)"
    by code_simp+
  from h(2-4) have i: "conservation \<lparr>conservation = 1, start = 5\<rparr> = 0 \<or>
         (icsk_ca_state ex_sock < TCP_CA_Recovery \<and>
          (ucast (prev_ca_state ex_w_drained) :: u8) < TCP_CA_Recovery \<and>
          \<not> packet_conservation ex_w_drained)"
    by blast
  from gain_transition_after_warm_up [OF r h(1) i] e d have
    "state (ex_w_drained\<lparr>rtt_cnt := 5, gain := 320, state := 0\<rparr>) = UP"
    "gain (ex_w_drained\<lparr>rtt_cnt := 5, gain := 320, state := 0\<rparr>) = 320"
    by auto
  with r h e d show ?thesis by blast
qed

text \<open>The claim as stated fails on the sixth call of a connection whose first sample
  carried one packet per microsecond and whose later samples carried nothing: the phase is
  \<open>DOWN\<close>, \<open>curr_bw\<close> and \<open>last_bw\<close> are both \<open>BW_UNIT\<close>, so \<open>19 * last_bw > 20 * curr_bw\<close>
  is false and the claim keeps \<open>DOWN\<close> with gain 192; the call ends in \<open>UP\<close> with gain 320,
  the filter's maximum being 0.\<close>

theorem gain_transition_curr_bw_counterexample:
  "run_calls \<lparr>conservation = 1, start = 0\<rparr> [tcp_caohejing_init zero_caohejing]
     [(0, Cong_control ex_sock ex_sample),
      (0, Cong_control ex_sock (ex_sample\<lparr>delivered := 0\<rparr>)),
      (0, Cong_control ex_sock (ex_sample\<lparr>delivered := 0\<rparr>)),
      (0, Cong_control ex_sock (ex_sample\<lparr>delivered := 0\<rparr>)),
      (0, Cong_control ex_sock (ex_sample\<lparr>delivered := 0\<rparr>))]
     = Inr (\<lparr>conservation = 1, start = 5\<rparr>, [ex_w_drained]) \<and>
   3 <s start \<lparr>conservation = 1, start = 5\<rparr> \<and>
   state ex_w_drained = DOWN \<and>
   cong_control_estimate ex_sock ex_w_drained (ex_sample\<lparr>delivered := 0\<rparr>)
     = Inr (ex_w_drained\<lparr>rtt_cnt := 5\<rparr>, False) \<and>
   \<not> 20 * curr_bw (ex_w_drained\<lparr>rtt_cnt := 5\<rparr>) < 19 * last_bw (ex_w_drained\<lparr>rtt_cnt := 5\<rparr>) \<and>
   tcp_caohejing_cong_control \<lparr>conservation = 1, start = 5\<rparr> ex_sock ex_w_drained
       (ex_sample\<lparr>delivered := 0\<rparr>)
     = Inr (\<lparr>conservation = 1, start = 6\<rparr>, ex_sock\<lparr>snd_cwnd := 6\<rparr>,
            ex_w_drained\<lparr>rtt_cnt := 5, gain := 320, state := 0\<rparr>) \<and>
   state (ex_w_drained\<lparr>rtt_cnt := 5, gain := 320, state := 0\<rparr>) = UP \<and>
   gain (ex_w_drained\<lparr>rtt_cnt := 5, gain := 320, state := 0\<rparr>) = 320"
proof -
  have "run_calls \<lparr>conservation = 1, start = 0\<rparr> [tcp_caohejing_init zero_caohejing]
     [(0, Cong_control ex_sock ex_sample),
      (0, Cong_control ex_sock (ex_sample\<lparr>delivered := 0\<rparr>)),
      (0, Cong_control ex_sock (ex_sample\<lparr>delivered := 0\<rparr>)),
      (0, Cong_control ex_sock (ex_sample\<lparr>delivered := 0\<rparr>)),
      (0, Cong_control ex_sock (ex_sample\<lparr>delivered := 0\<rparr>))]
     = Inr (\<lparr>conservation = 1, start = 5\<rparr>, [ex_w_drained])"
    by code_simp
  moreover have "3 <s start \<lparr>conservation = 1, start = 5\<rparr>" "state ex_w_drained = DOWN"
    by code_simp+
  moreover have "cong_control_estimate ex_sock ex_w_drained (ex_sample\<lparr>delivered := 0\<rparr>)
     = Inr (ex_w_drained\<lparr>rtt_cnt := 5\<rparr>, False)"
    by code_simp
  moreover have
    "\<not> 20 * curr_bw (ex_w_drained\<lparr>rtt_cnt := 5\<rparr>) < 19 * last_bw (ex_w_drained\<lparr>rtt_cnt := 5\<rparr>)"
    by code_simp
  moreover have "tcp_caohejing_cong_control \<lparr>conservation = 1, start = 5\<rparr> ex_sock ex_w_drained
       (ex_sample\<lparr>delivered := 0\<rparr>)
     = Inr (\<lparr>conservation = 1, start = 6\<rparr>, ex_sock\<lparr>snd_cwnd := 6\<rparr>,
            ex_w_drained\<lparr>rtt_cnt := 5, gain := 320, state := 0\<rparr>)"
    by code_simp
  moreover have "state (ex_w_drained\<lparr>rtt_cnt := 5, gain := 320, state := 0\<rparr>) = UP"
    "gain (ex_w_drained\<lparr>rtt_cnt := 5, gain := 320, state := 0\<rparr>) = 320"
    by code_simp+
  ultimately show ?thesis by blast
qed

section \<open>The warm-up\<close>

text \<open>Claim C3, as amended. The counter \<open>start\<close> is one variable of the module: it counts
  the \<^verbatim>\<open>cong_control\<close> calls of all connections together, whatever their state. The
  gain switch is skipped while it is at most 3, that is on the first 4 calls of the process,
  not 3. During these, on connections that stay outside loss recovery (or with the
  conservative mode off), every connection keeps the gain and phase it had, which after init
  are 320 and \<open>UP\<close>. The call that follows \<open>n\<close> earlier calls of the process, on any
  connection, has the switch evaluated when \<open>n\<close> is at least 4 and leaves gain and phase
  alone when \<open>n\<close> is below 4; this as long as the \<^verbatim>\<open>int\<close> counter has not reached
  \<open>2^31\<close>.\<close>

theorem warm_up_first_four_calls:
  assumes "run_calls g ws cs = Inr (g', ws')"
    and "start g = 0"
    and "cong_control_calls (length ws) cs < 2 ^ 31"
  shows "unat (start g') = cong_control_calls (length ws) cs \<and>
     (cong_control_calls (length ws) cs \<le> 4 \<longrightarrow>
      conservation g = 0 \<or> (list_all idle_state ws \<and> list_all (\<lambda>(c, cb). idle_call cb) cs) \<longrightarrow>
        map gain ws' = map gain ws \<and> map state ws' = map state ws) \<and>
     (run_callback g' w (Cong_control sk rs) = Inr (g'', w') \<longrightarrow>
      conservation g' = 0 \<or> (idle_state w \<and> icsk_ca_state sk < TCP_CA_Recovery) \<longrightarrow>
        (\<exists>w4 nx. cong_control_estimate sk w rs = Inr (w4, nx) \<and>
           state w4 = state w \<and> gain w4 = gain w \<and>
           (if 4 \<le> cong_control_calls (length ws) cs
            then state w' = state (gain_switch w4 (ucast (minmax_get (bw w4)))) \<and>
                 gain w' = gain (gain_switch w4 (ucast (minmax_get (bw w4))))
            else state w' = state w \<and> gain w' = gain w)))"
proof -
  let ?n = "cong_control_calls (length ws) cs"
  from run_calls_start [OF assms(1)] assms(2) have "start g' = of_nat ?n" by simp
  with unat_of_nat_small [OF assms(3)] have u: "unat (start g') = ?n" by simp
  with assms(3) have "unat (start g') < 2 ^ 31" by simp
  from sless_3_iff [OF this] u have s: "3 <s start g' \<longleftrightarrow> 4 \<le> ?n" by simp
  have a: "map gain ws' = map gain ws \<and> map state ws' = map state ws"
    if "?n \<le> 4"
      "conservation g = 0 \<or> (list_all idle_state ws \<and> list_all (\<lambda>(c, cb). idle_call cb) cs)"
    using run_calls_warm_up [OF assms(1) _ that(2)] assms(2) that(1) by simp
  have b: "\<exists>w4 nx. cong_control_estimate sk w rs = Inr (w4, nx) \<and>
           state w4 = state w \<and> gain w4 = gain w \<and>
           (if 4 \<le> ?n
            then state w' = state (gain_switch w4 (ucast (minmax_get (bw w4)))) \<and>
                 gain w' = gain (gain_switch w4 (ucast (minmax_get (bw w4))))
            else state w' = state w \<and> gain w' = gain w)"
    if r: "run_callback g' w (Cong_control sk rs) = Inr (g'', w')"
      and i: "conservation g' = 0 \<or> (idle_state w \<and> icsk_ca_state sk < TCP_CA_Recovery)"
  proof -
    from r i obtain w4 nx where
      e: "cong_control_estimate sk w rs = Inr (w4, nx)" "state w4 = state w" "gain w4 = gain w"
      and y: "3 <s start g' \<longrightarrow> state w' = state (gain_switch w4 (ucast (minmax_get (bw w4))))"
        "3 <s start g' \<longrightarrow> gain w' = gain (gain_switch w4 (ucast (minmax_get (bw w4))))"
      and z: "\<not> 3 <s start g' \<longrightarrow> state w' = state w"
        "\<not> 3 <s start g' \<longrightarrow> gain w' = gain w"
      by (rule run_callback_gain_rule)
    show ?thesis
    proof (cases "4 \<le> ?n")
      case True
      with s y e show ?thesis by auto
    next
      case False
      with s z e show ?thesis by auto
    qed
  qed
  from u a b show ?thesis by blast
qed

theorem warm_up_first_four_calls_witness:
  "run_calls \<lparr>conservation = 1, start = 0\<rparr> (replicate 5 (tcp_caohejing_init zero_caohejing))
     [(0 :: nat, Cong_control ex_sock ex_sample), (1, Cong_control ex_sock ex_sample),
      (2, Cong_control ex_sock ex_sample), (3, Cong_control ex_sock ex_sample)]
     = Inr (\<lparr>conservation = 1, start = 4\<rparr>,
            [ex_w_first, ex_w_first, ex_w_first, ex_w_first, tcp_caohejing_init zero_caohejing]) \<and>
   start \<lparr>conservation = 1, start = 0\<rparr> = 0 \<and>
   cong_control_calls (length (replicate 5 (tcp_caohejing_init zero_caohejing)))
     [(0 :: nat, Cong_control ex_sock ex_sample), (1, Cong_control ex_sock ex_sample),
      (2, Cong_control ex_sock ex_sample), (3, Cong_control ex_sock ex_sample)] = 4 \<and>
   list_all idle_state (replicate 5 (tcp_caohejing_init zero_caohejing)) \<and>
   list_all (\<lambda>(c, cb). idle_call cb)
     [(0 :: nat, Cong_control ex_sock ex_sample), (1, Cong_control ex_sock ex_sample),
      (2, Cong_control ex_sock ex_sample), (3, Cong_control ex_sock ex_sample)] \<and>
   unat (start \<lparr>conservation = 1, start = 4\<rparr>) = 4 \<and>
   map gain [ex_w_first, ex_w_first, ex_w_first, ex_w_first, tcp_caohejing_init zero_caohejing]
     = [320, 320, 320, 320, 320] \<and>
   map state [ex_w_first, ex_w_first, ex_w_first, ex_w_first, tcp_caohejing_init zero_caohejing]
     = [UP, UP, UP, UP, UP] \<and>
   run_callback \<lparr>conservation = 1, start = 4\<rparr> (tcp_caohejing_init zero_caohejing)
       (Cong_control ex_sock ex_sample)
     = Inr (\<lparr>conservation = 1, start = 5\<rparr>, ex_w_first\<lparr>gain := 192, state := DOWN\<rparr>) \<and>
   idle_state (tcp_caohejing_init zero_caohejing) \<and> icsk_ca_state ex_sock < TCP_CA_Recovery \<and>
   cong_control_estimate ex_sock (tcp_caohejing_init zero_caohejing) ex_sample
     = Inr (ex_w_first_est, True) \<and>
   state (ex_w_first\<lparr>gain := 192, state := DOWN\<rparr>)
     = state (gain_switch ex_w_first_est (ucast (minmax_get (bw ex_w_first_est)))) \<and>
   gain (ex_w_first\<lparr>gain := 192, state := DOWN\<rparr>)
     = gain (gain_switch ex_w_first_est (ucast (minmax_get (bw ex_w_first_est)))) \<and>
   state (ex_w_first\<lparr>gain := 192, state := DOWN\<rparr>) = DOWN \<and>
   gain (ex_w_first\<lparr>gain := 192, state := DOWN\<rparr>) = 192 \<and>
   run_calls \<lparr>conservation = 1, start = 0\<rparr> (replicate 5 (tcp_caohejing_init zero_caohejing))
     [(0 :: nat, Cong_control ex_sock ex_sample), (1, Cong_control ex_sock ex_sample),
      (2, Cong_control ex_sock ex_sample)]
     = Inr (\<lparr>conservation = 1, start = 3\<rparr>,
            [ex_w_first, ex_w_first, ex_w_first, tcp_caohejing_init zero_caohejing,
             tcp_caohejing_init zero_caohejing]) \<and>
   cong_control_calls (length (replicate 5 (tcp_caohejing_init zero_caohejing)))
     [(0 :: nat, Cong_control ex_sock ex_sample), (1, Cong_control ex_sock ex_sample),
      (2, Cong_control ex_sock ex_sample)] = 3 \<and>
   run_callback \<lparr>conservation = 1, start = 3\<rparr> (tcp_caohejing_init zero_caohejing)
       (Cong_control ex_sock ex_sample)
     = Inr (\<lparr>conservation = 1, start = 4\<rparr>, ex_w_first) \<and>
   state ex_w_first = UP \<and> gain ex_w_first = 320"
proof -
  define g0 where "g0 = \<lparr>conservation = 1, start = 0\<rparr>"
  define g3 where "g3 = \<lparr>conservation = 1, start = 3\<rparr>"
  define g4 where "g4 = \<lparr>conservation = 1, start = 4\<rparr>"
  define g5 where "g5 = \<lparr>conservation = 1, start = 5\<rparr>"
  define w0 where "w0 = tcp_caohejing_init zero_caohejing"
  define wd where "wd = ex_w_first\<lparr>gain := 192, state := DOWN\<rparr>"
  define cs3 where "cs3 = [(0 :: nat, Cong_control ex_sock ex_sample),
      (1, Cong_control ex_sock ex_sample), (2, Cong_control ex_sock ex_sample)]"
  define cs4 where "cs4 = [(0 :: nat, Cong_control ex_sock ex_sample),
      (1, Cong_control ex_sock ex_sample), (2, Cong_control ex_sock ex_sample),
      (3, Cong_control ex_sock ex_sample)]"
  define ws where "ws = replicate 5 (tcp_caohejing_init zero_caohejing)"
  define ws3 where "ws3 = [ex_w_first, ex_w_first, ex_w_first,
      tcp_caohejing_init zero_caohejing, tcp_caohejing_init zero_caohejing]"
  define ws4 where "ws4 = [ex_w_first, ex_w_first, ex_w_first, ex_w_first,
      tcp_caohejing_init zero_caohejing]"
  note defs = g0_def g3_def g4_def g5_def w0_def wd_def cs3_def cs4_def ws_def ws3_def ws4_def
  have r4: "run_calls g0 ws cs4 = Inr (g4, ws4)"
    and r3: "run_calls g0 ws cs3 = Inr (g3, ws3)"
    unfolding defs by code_simp+
  have z: "start g0 = 0" unfolding defs by simp
  have n4: "cong_control_calls (length ws) cs4 = 4"
    and n3: "cong_control_calls (length ws) cs3 = 3"
    unfolding defs by code_simp+
  have i: "list_all idle_state ws" "list_all (\<lambda>(c, cb). idle_call cb) cs4"
    unfolding defs by code_simp+
  have m: "map gain ws = [320, 320, 320, 320, 320]" "map state ws = [UP, UP, UP, UP, UP]"
    unfolding defs by code_simp+
  have c5: "run_callback g4 w0 (Cong_control ex_sock ex_sample) = Inr (g5, wd)"
    and c4: "run_callback g3 w0 (Cong_control ex_sock ex_sample) = Inr (g4, ex_w_first)"
    unfolding defs by code_simp+
  have j: "idle_state w0" "icsk_ca_state ex_sock < TCP_CA_Recovery"
    unfolding defs by code_simp+
  have e: "cong_control_estimate ex_sock w0 ex_sample = Inr (ex_w_first_est, True)"
    unfolding defs by code_simp
  have v: "state wd = DOWN" "gain wd = 192" "state w0 = UP" "gain w0 = 320"
    unfolding defs by code_simp+
  from n4 have b4: "cong_control_calls (length ws) cs4 < 2 ^ 31"
    and l4: "cong_control_calls (length ws) cs4 \<le> 4"
    and t4: "(4 \<le> cong_control_calls (length ws) cs4) = True"
    by simp_all
  from n3 have b3: "cong_control_calls (length ws) cs3 < 2 ^ 31"
    and f3: "(4 \<le> cong_control_calls (length ws) cs3) = False"
    by simp_all
  from i have i4: "conservation g0 = 0 \<or>
      (list_all idle_state ws \<and> list_all (\<lambda>(c, cb). idle_call cb) cs4)"
    by blast
  from j have j4: "conservation g4 = 0 \<or> (idle_state w0 \<and> icsk_ca_state ex_sock < TCP_CA_Recovery)"
    and j3: "conservation g3 = 0 \<or> (idle_state w0 \<and> icsk_ca_state ex_sock < TCP_CA_Recovery)"
    by blast+
  note a = warm_up_first_four_calls [OF r4 z b4, where w = w0 and sk = ex_sock
      and rs = ex_sample and g'' = g5 and w' = wd]
  note b = warm_up_first_four_calls [OF r3 z b3, where w = w0 and sk = ex_sock
      and rs = ex_sample and g'' = g4 and w' = ex_w_first]
  from a n4 have a1: "unat (start g4) = 4" by (simp only:)
  from a l4 i4 have "map gain ws4 = map gain ws \<and> map state ws4 = map state ws" by blast
  with m have a2: "map gain ws4 = [320, 320, 320, 320, 320]"
    "map state ws4 = [UP, UP, UP, UP, UP]"
    by (simp_all only:)
  from a c5 j4 obtain w4 nx where
    x: "cong_control_estimate ex_sock w0 ex_sample = Inr (w4, nx)" and
    y: "if 4 \<le> cong_control_calls (length ws) cs4
        then state wd = state (gain_switch w4 (ucast (minmax_get (bw w4)))) \<and>
             gain wd = gain (gain_switch w4 (ucast (minmax_get (bw w4))))
        else state wd = state w0 \<and> gain wd = gain w0"
    by blast
  from x e have "w4 = ex_w_first_est" by simp
  with y have a3: "state wd = state (gain_switch ex_w_first_est (ucast (minmax_get (bw ex_w_first_est))))"
    "gain wd = gain (gain_switch ex_w_first_est (ucast (minmax_get (bw ex_w_first_est))))"
    by (simp_all only: t4 if_True)
  from b c4 j3 obtain w5 ny where
    "if 4 \<le> cong_control_calls (length ws) cs3
        then state ex_w_first = state (gain_switch w5 (ucast (minmax_get (bw w5)))) \<and>
             gain ex_w_first = gain (gain_switch w5 (ucast (minmax_get (bw w5))))
        else state ex_w_first = state w0 \<and> gain ex_w_first = gain w0"
    by blast
  then have "state ex_w_first = state w0" "gain ex_w_first = gain w0"
    by (simp_all only: f3 if_False)
  with v have q3: "state ex_w_first = UP" "gain ex_w_first = 320" by (simp_all only:)
  from r4 z n4 i a1 a2 c5 j e a3 v(1,2) r3 n3 c4 q3 show ?thesis
    unfolding defs by blast
qed

text \<open>The claim as stated fails twice. The fourth call of the process is still warm-up: had
  the rule been evaluated on it, as on the fifth call, the connection would be in \<open>DOWN\<close>
  with gain 192; it stays in \<open>UP\<close> with gain 320, and the fifth call, the first ever of its
  connection, is switched at once. And during the first three calls the gain does not stay
  at 320: a first call that enters recovery ends in \<open>DOWN\<close> with gain 192.\<close>

theorem warm_up_counterexample:
  "run_calls \<lparr>conservation = 1, start = 0\<rparr> (replicate 5 (tcp_caohejing_init zero_caohejing))
     [(0 :: nat, Cong_control ex_sock ex_sample), (1, Cong_control ex_sock ex_sample),
      (2, Cong_control ex_sock ex_sample)]
     = Inr (\<lparr>conservation = 1, start = 3\<rparr>,
            [ex_w_first, ex_w_first, ex_w_first, tcp_caohejing_init zero_caohejing,
             tcp_caohejing_init zero_caohejing]) \<and>
   cong_control_estimate ex_sock (tcp_caohejing_init zero_caohejing) ex_sample
     = Inr (ex_w_first_est, True) \<and>
   gain_switch ex_w_first_est (ucast (minmax_get (bw ex_w_first_est)))
     = ex_w_first_est\<lparr>gain := 192, state := DOWN\<rparr> \<and>
   run_callback \<lparr>conservation = 1, start = 3\<rparr> (tcp_caohejing_init zero_caohejing)
       (Cong_control ex_sock ex_sample)
     = Inr (\<lparr>conservation = 1, start = 4\<rparr>, ex_w_first) \<and>
   state ex_w_first = UP \<and> gain ex_w_first = 320 \<and>
   run_callback \<lparr>conservation = 1, start = 4\<rparr> (tcp_caohejing_init zero_caohejing)
       (Cong_control ex_sock ex_sample)
     = Inr (\<lparr>conservation = 1, start = 5\<rparr>, ex_w_first\<lparr>gain := 192, state := DOWN\<rparr>) \<and>
   run_callback \<lparr>conservation = 1, start = 0\<rparr> (tcp_caohejing_init zero_caohejing)
       (Cong_control ex_sock_recovery ex_sample)
     = Inr (\<lparr>conservation = 1, start = 1\<rparr>, ex_w_recovery\<lparr>prior_cwnd := 0\<rparr>) \<and>
   state (ex_w_recovery\<lparr>prior_cwnd := 0\<rparr>) = DOWN \<and> gain (ex_w_recovery\<lparr>prior_cwnd := 0\<rparr>) = 192"
proof -
  have "run_calls \<lparr>conservation = 1, start = 0\<rparr> (replicate 5 (tcp_caohejing_init zero_caohejing))
     [(0 :: nat, Cong_control ex_sock ex_sample), (1, Cong_control ex_sock ex_sample),
      (2, Cong_control ex_sock ex_sample)]
     = Inr (\<lparr>conservation = 1, start = 3\<rparr>,
            [ex_w_first, ex_w_first, ex_w_first, tcp_caohejing_init zero_caohejing,
             tcp_caohejing_init zero_caohejing])"
    by code_simp
  moreover have "cong_control_estimate ex_sock (tcp_caohejing_init zero_caohejing) ex_sample
     = Inr (ex_w_first_est, True)"
    by code_simp
  moreover have "gain_switch ex_w_first_est (ucast (minmax_get (bw ex_w_first_est)))
     = ex_w_first_est\<lparr>gain := 192, state := DOWN\<rparr>"
    by code_simp
  moreover have
    "run_callback \<lparr>conservation = 1, start = 3\<rparr> (tcp_caohejing_init zero_caohejing)
       (Cong_control ex_sock ex_sample)
     = Inr (\<lparr>conservation = 1, start = 4\<rparr>, ex_w_first)"
    by code_simp
  moreover have "state ex_w_first = UP" "gain ex_w_first = 320"
    by code_simp+
  moreover have
    "run_callback \<lparr>conservation = 1, start = 4\<rparr> (tcp_caohejing_init zero_caohejing)
       (Cong_control ex_sock ex_sample)
     = Inr (\<lparr>conservation = 1, start = 5\<rparr>, ex_w_first\<lparr>gain := 192, state := DOWN\<rparr>)"
    by code_simp
  moreover have
    "run_callback \<lparr>conservation = 1, start = 0\<rparr> (tcp_caohejing_init zero_caohejing)
       (Cong_control ex_sock_recovery ex_sample)
     = Inr (\<lparr>conservation = 1, start = 1\<rparr>, ex_w_recovery\<lparr>prior_cwnd := 0\<rparr>)"
    by code_simp
  moreover have "state (ex_w_recovery\<lparr>prior_cwnd := 0\<rparr>) = DOWN"
    "gain (ex_w_recovery\<lparr>prior_cwnd := 0\<rparr>) = 192"
    by code_simp+
  ultimately show ?thesis by blast
qed

end
